theory Spec2Isabelle
  imports Complex_Main "HOL-Library.Word"
begin

section \<open>The Slack bot of src/slack.js\<close>

text \<open>
  The class \<^verbatim>\<open>SlackBot\<close> deals tarot cards in one Slack thread. Its methods are
  asynchronous and talk to four collaborators: the Slack web client, the key-value
  store \<^verbatim>\<open>kv\<close>, the text catalogue \<^verbatim>\<open>transcript\<close> and the file \<^verbatim>\<open>.rootmessage\<close>.
  The embedding runs one method call from start to end on an explicit state. Every
  call of a collaborator is written to a trace, in program order, and what the
  collaborator answers is read from an environment, so that a theorem about all
  environments is a theorem about every answer the collaborators can give.
\<close>

subsection \<open>Strings\<close>

text \<open>
  The text of an event is a JavaScript string: a sequence of 16-bit code units.
  \<^verbatim>\<open>String.prototype.trim\<close> strips from both ends the code units of ECMAScript's
  white space and line terminators: TAB, LF, VT, FF, CR, SPACE, NO-BREAK SPACE,
  U+1680, U+2000 to U+200A, U+2028, U+2029, U+202F, U+205F, U+3000 and U+FEFF.
  \<open>units\<close> gives the code units of a literal written in ASCII.
\<close>

type_synonym code_unit = "16 word"

definition units :: "string \<Rightarrow> code_unit list" where
  "units s = map of_char s"

definition isWhiteSpace :: "code_unit \<Rightarrow> bool" where
  "isWhiteSpace u = (u = 0x0009 \<or> u = 0x000A \<or> u = 0x000B \<or> u = 0x000C \<or> u = 0x000D
     \<or> u = 0x0020 \<or> u = 0x00A0 \<or> u = 0x1680 \<or> (0x2000 \<le> u \<and> u \<le> 0x200A)
     \<or> u = 0x2028 \<or> u = 0x2029 \<or> u = 0x202F \<or> u = 0x205F \<or> u = 0x3000
     \<or> u = 0xFEFF)"

definition trim :: "code_unit list \<Rightarrow> code_unit list" where
  "trim s = rev (dropWhile isWhiteSpace (rev (dropWhile isWhiteSpace s)))"

text \<open>
  \<^verbatim>\<open>String.prototype.toUpperCase\<close> follows the case mappings of Unicode, a table of the
  runtime: it is a parameter of the environment below. What is used of it is what it
  does to a string of code units below U+0080: a..z become A..Z, every other one stays.
\<close>

definition ascii_upper :: "code_unit \<Rightarrow> code_unit" where
  "ascii_upper u = (if 0x0061 \<le> u \<and> u \<le> 0x007A then u - 0x0020 else u)"


text \<open>
  Identities, timestamps, keys and phrases are strings that the program only joins and
  compares; of their content it reads one thing, whether a user name starts with
  \<^verbatim>\<open>U\<close>.
\<close>

text \<open>\<^verbatim>\<open>s.startsWith(c)\<close> for a one-character prefix.\<close>

definition startsWith :: "string \<Rightarrow> char \<Rightarrow> bool" where
  "startsWith s c = (case s of [] \<Rightarrow> False | x # _ \<Rightarrow> x = c)"

text \<open>
  Truthiness of a value that is a string or \<^verbatim>\<open>undefined\<close> (\<open>None\<close>): the empty string
  and \<^verbatim>\<open>undefined\<close> are falsy.
\<close>

definition truthy_string :: "string option \<Rightarrow> bool" where
  "truthy_string v = (case v of None \<Rightarrow> False | Some s \<Rightarrow> s \<noteq> [])"

subsection \<open>Data\<close>

text \<open>
  An error is a value: \<open>TypeError\<close> is what the language raises when a property of
  \<^verbatim>\<open>undefined\<close> is read or a non-function is called, \<open>Thrown\<close> is an error raised by
  a collaborator.
\<close>

datatype js_error = TypeError | Thrown string

text \<open>The fields of a Slack message event that \<^verbatim>\<open>handleMessageEvent\<close> reads;
  \<open>None\<close> is an absent field (\<^verbatim>\<open>undefined\<close>).\<close>

record event =
  ev_channel :: string
  ev_thread_ts :: "string option"
  ev_text :: "code_unit list option"
  ev_ts :: string
  ev_user :: "string option"
  ev_bot_id :: "string option"

text \<open>\<^verbatim>\<open>messageParams\<close> of \<^verbatim>\<open>sendMessage\<close>, and the part of the answer of
  \<^verbatim>\<open>chat.postMessage\<close> that is read.\<close>

record message_params =
  mp_channel :: string
  mp_text :: string
  mp_thread_ts :: "string option"
  mp_username :: "string option"

record post_result =
  res_channel :: string
  res_ts :: string

record root_message =
  rm_channelId :: string
  rm_messageTs :: string

text \<open>A catalogue entry, as far as \<^verbatim>\<open>drawCard\<close> reads it.\<close>

record card =
  name :: string
  requirements :: string

text \<open>
  An element of a hand: a card key, or \<^verbatim>\<open>undefined\<close>, which is what indexing an array
  out of range yields. The store holds the cooldown marker and hands.
\<close>

datatype hand_item = Card string | Undefined

datatype kv_value = Marker bool | Hand "hand_item list"

text \<open>\<^verbatim>\<open>if (v)\<close> for a value read from the store (\<open>None\<close> is an absent key): an array
  is truthy, also when empty.\<close>

definition truthy :: "kv_value option \<Rightarrow> bool" where
  "truthy v = (case v of None \<Rightarrow> False | Some (Marker b) \<Rightarrow> b | Some (Hand _) \<Rightarrow> True)"

text \<open>What the program does to the outside, in the order it does it. The console
  entries keep the label (the first argument) and the error object, if one is logged.\<close>

datatype effect =
    ConsoleLog string
  | ConsoleError string "js_error option"
  | PostMessage message_params
  | Reaction string string string string
  | KvGet string
  | KvSet string kv_value "nat option"
  | BunWrite "root_message option"

text \<open>
  The state: the fields \<^verbatim>\<open>channelId\<close> and \<^verbatim>\<open>rootMessage\<close> of the bot, the key-value
  store (a value with the time at which it expires, if any) and the trace. The file
  \<^verbatim>\<open>.rootmessage\<close> is written without being waited for: what a call does to it is the
  write request in the trace, and its content is no part of the state of a call.
\<close>

record world =
  channelId :: string
  rootMessage :: "root_message option"
  kv :: "string \<rightharpoonup> kv_value \<times> nat option"
  trace :: "effect list"

text \<open>
  The environment of one call: the clock in milliseconds, the number that
  \<^verbatim>\<open>Math.random()\<close> returns (a double, taken as a real), the answers of \<^verbatim>\<open>transcript\<close>
  for a text key and its table \<^verbatim>\<open>transcript('cards')\<close> (keys in the order of
  \<^verbatim>\<open>Object.keys\<close>), the answer of \<^verbatim>\<open>chat.postMessage\<close> to its n-th call with given
  parameters, whether the reaction call or a store call on a key throws, whether the
  call of \<^verbatim>\<open>Bun.write\<close> throws before it returns its promise, and the \<^verbatim>\<open>toUpperCase\<close> of
  the runtime.
\<close>

record env =
  now :: nat
  random :: real
  transcript :: "string \<Rightarrow> js_error + string"
  cards :: "(string \<times> card) list"
  postMessage :: "nat \<Rightarrow> message_params \<Rightarrow> js_error + post_result"
  reaction_error :: "js_error option"
  kv_get_error :: "string \<Rightarrow> js_error option"
  kv_set_error :: "string \<Rightarrow> js_error option"
  write_error :: "js_error option"
  toUpperCase :: "code_unit list \<Rightarrow> code_unit list"

subsection \<open>Control flow\<close>

text \<open>A piece of program takes the state and returns the new state with either the
  error it raised (\<open>Inl\<close>) or its value (\<open>Inr\<close>).\<close>

type_synonym 'a prog = "world \<Rightarrow> (js_error + 'a) \<times> world"

definition ret :: "'a \<Rightarrow> 'a prog" where
  "ret x w = (Inr x, w)"

definition raise :: "js_error \<Rightarrow> 'a prog" where
  "raise e w = (Inl e, w)"

definition andThen :: "'a prog \<Rightarrow> ('a \<Rightarrow> 'b prog) \<Rightarrow> 'b prog" where
  "andThen m f w = (case m w of (Inl e, w') \<Rightarrow> (Inl e, w') | (Inr x, w') \<Rightarrow> f x w')"

definition tryCatch :: "'a prog \<Rightarrow> (js_error \<Rightarrow> 'a prog) \<Rightarrow> 'a prog" where
  "tryCatch m h w = (case m w of (Inl e, w') \<Rightarrow> h e w' | (Inr x, w') \<Rightarrow> (Inr x, w'))"

definition emit :: "effect \<Rightarrow> unit prog" where
  "emit e w = (Inr (), w\<lparr>trace := trace w @ [e]\<rparr>)"

definition lift :: "js_error + 'a \<Rightarrow> 'a prog" where
  "lift r w = (r, w)"

text \<open>
  Three readings of a trace: the parameters of every call of \<^verbatim>\<open>chat.postMessage\<close>
  (whether or not the call succeeds), the calls of the store, and the effects that a
  run added to the trace of the state it started from.
\<close>

fun posts :: "effect list \<Rightarrow> message_params list" where
  "posts [] = []"
| "posts (PostMessage p # es) = p # posts es"
| "posts (_ # es) = posts es"

fun store_ops :: "effect list \<Rightarrow> effect list" where
  "store_ops [] = []"
| "store_ops (KvGet k # es) = KvGet k # store_ops es"
| "store_ops (KvSet k v t # es) = KvSet k v t # store_ops es"
| "store_ops (_ # es) = store_ops es"

definition new_effects :: "world \<Rightarrow> world \<Rightarrow> effect list" where
  "new_effects w w' = drop (length (trace w)) (trace w')"

subsection \<open>The key-value store\<close>

text \<open>
  Modelled from the spec: the module \<^verbatim>\<open>kv.js\<close> is not part of the sources. The spec
  gives it as \<^verbatim>\<open>get(key) -> value | absent\<close> and \<^verbatim>\<open>set(key, value, ttlMillis?) -> void\<close>,
  with entries that expire: a value written with a time-to-live is absent from the
  moment the time-to-live has passed, a value written without one stays. A call may
  throw, as any call of a collaborator may. \<^verbatim>\<open>drawCard\<close> waits for \<^verbatim>\<open>kv.get\<close> and does
  not wait for \<^verbatim>\<open>kv.set\<close>: the write is taken to be in the store when the call
  returns, and an error of \<^verbatim>\<open>kv.set\<close> is one that it throws before it returns. The
  clock of one call of the bot stands still.
\<close>

definition kv_lookup :: "(string \<rightharpoonup> kv_value \<times> nat option) \<Rightarrow> nat \<Rightarrow> string \<Rightarrow> kv_value option" where
  "kv_lookup store t key =
     (case store key of
        None \<Rightarrow> None
      | Some (v, None) \<Rightarrow> Some v
      | Some (v, Some expiry) \<Rightarrow> if t < expiry then Some v else None)"

definition kv_get :: "env \<Rightarrow> string \<Rightarrow> kv_value option prog" where
  "kv_get env key =
     andThen (emit (KvGet key)) (\<lambda>_ w.
       case kv_get_error env key of
         Some e \<Rightarrow> (Inl e, w)
       | None \<Rightarrow> (Inr (kv_lookup (kv w) (now env) key), w))"

definition kv_set :: "env \<Rightarrow> string \<Rightarrow> kv_value \<Rightarrow> nat option \<Rightarrow> unit prog" where
  "kv_set env key v ttl =
     andThen (emit (KvSet key v ttl)) (\<lambda>_ w.
       case kv_set_error env key of
         Some e \<Rightarrow> (Inl e, w)
       | None \<Rightarrow> (Inr (), w\<lparr>kv := (kv w)(key \<mapsto> (v, map_option (\<lambda>ms. now env + ms) ttl))\<rparr>))"

subsection \<open>saveRootMessage, sendMessage, react\<close>

text \<open>
  \<^verbatim>\<open>saveRootMessage\<close> (lines 29-35) calls \<^verbatim>\<open>Bun.write\<close> with the session in memory and
  does not wait for the promise. The call is the write request; an error that the
  call itself throws is caught and logged. A write that fails later rejects a promise
  that nothing holds: it is no effect of this method and is not logged by it.
\<close>

definition saveRootMessage :: "env \<Rightarrow> unit prog" where
  "saveRootMessage env =
     tryCatch
       (\<lambda>w. andThen (emit (BunWrite (rootMessage w)))
              (\<lambda>_. case write_error env of Some e \<Rightarrow> raise e | None \<Rightarrow> ret ()) w)
       (\<lambda>error. emit (ConsoleError ''Error saving root message:'' (Some error)))"

text \<open>
  \<^verbatim>\<open>sendMessage\<close> (lines 37-68). \<^verbatim>\<open>thread_ts\<close> and \<^verbatim>\<open>username\<close> are set in the parameters
  only when the argument is truthy. After the post, a falsy \<^verbatim>\<open>threadTs\<close> makes the
  posted message the session, and \<^verbatim>\<open>saveRootMessage\<close> is called.
\<close>

definition sendMessage :: "env \<Rightarrow> string \<Rightarrow> string option \<Rightarrow> string option \<Rightarrow> post_result prog" where
  "sendMessage env message threadTs username w =
     tryCatch
       (let messageParams =
              \<lparr>mp_channel = channelId w, mp_text = message,
               mp_thread_ts = (if truthy_string threadTs then threadTs else None),
               mp_username = (if truthy_string username then username else None)\<rparr>
        in andThen (emit (ConsoleLog ''Sending message with params:'')) (\<lambda>_.
           andThen (\<lambda>w1. (postMessage env (length (posts (trace w1))) messageParams,
                          w1\<lparr>trace := trace w1 @ [PostMessage messageParams]\<rparr>)) (\<lambda>result.
           andThen (if \<not> truthy_string threadTs
                    then andThen
                           (\<lambda>w2. (Inr (), w2\<lparr>rootMessage :=
                                     Some \<lparr>rm_channelId = res_channel result,
                                           rm_messageTs = res_ts result\<rparr>\<rparr>))
                           (\<lambda>_. saveRootMessage env)
                    else ret ()) (\<lambda>_.
           ret result))))
       (\<lambda>error. andThen (emit (ConsoleError ''Error sending message to Slack:'' (Some error)))
                  (\<lambda>_. raise error))
       w"

text \<open>
  \<^verbatim>\<open>react\<close> (lines 143-154): the request is made, and a failure is logged inside and
  never leaves the method. \<^verbatim>\<open>drawCard\<close> does not wait for it; the embedding puts the
  log entry of a failed reaction right after the request.
\<close>

definition react :: "env \<Rightarrow> string \<Rightarrow> string \<Rightarrow> bool \<Rightarrow> unit prog" where
  "react env messageTs nm turnOn w =
     (let reaction = (if turnOn then ''add'' else ''remove'')
      in tryCatch
           (andThen (emit (Reaction reaction (channelId w) messageTs nm))
              (\<lambda>_. case reaction_error env of Some e \<Rightarrow> raise e | None \<Rightarrow> ret ()))
           (\<lambda>error. emit (ConsoleError ''Failed to react to message:'' None))
           w)"

subsection \<open>drawCard\<close>

text \<open>
  Lines 122-125: the keys of the catalogue that the hand does not include, and the
  element at index \<^verbatim>\<open>Math.floor(Math.random() * availableCards.length)\<close>, which is
  \<^verbatim>\<open>undefined\<close> when the index is not one of the array. The product and its floor
  are taken in the reals.
\<close>

definition availableCards :: "(string \<times> card) list \<Rightarrow> hand_item list \<Rightarrow> string list" where
  "availableCards allCards userHand = filter (\<lambda>key. Card key \<notin> set userHand) (map fst allCards)"

definition at_index :: "string list \<Rightarrow> int \<Rightarrow> hand_item" where
  "at_index xs i = (if 0 \<le> i \<and> i < int (length xs) then Card (xs ! nat i) else Undefined)"

definition randomCard :: "env \<Rightarrow> hand_item list \<Rightarrow> hand_item" where
  "randomCard env userHand =
     (let available = availableCards (cards env) userHand
      in at_index available \<lfloor>random env * real (length available)\<rfloor>)"

text \<open>A hand item as a property key or inside a string: \<^verbatim>\<open>undefined\<close> reads
  \<^verbatim>\<open>"undefined"\<close>.\<close>

definition item_string :: "hand_item \<Rightarrow> string" where
  "item_string c = (case c of Card k \<Rightarrow> k | Undefined \<Rightarrow> ''undefined'')"

definition cooldown_key :: "string \<Rightarrow> string" where
  "cooldown_key username = ''card_draw:'' @ username"

definition hand_key :: "string \<Rightarrow> string" where
  "hand_key username = ''user_hand:'' @ username"

definition userMention :: "string \<Rightarrow> string" where
  "userMention username =
     (if startsWith username CHR ''U'' then ''<@'' @ username @ ''>'' else username)"

text \<open>
  Lines 117-120 and the first use of the hand: an absent or falsy value is the empty
  hand, an array is the hand, and on \<^verbatim>\<open>true\<close> the calls \<^verbatim>\<open>userHand.includes\<close> and
  \<^verbatim>\<open>userHand.push\<close> are calls of \<^verbatim>\<open>undefined\<close>.
\<close>

definition hand_of :: "kv_value option \<Rightarrow> js_error + hand_item list" where
  "hand_of v =
     (case v of
        None \<Rightarrow> Inr []
      | Some (Marker False) \<Rightarrow> Inr []
      | Some (Marker True) \<Rightarrow> Inl TypeError
      | Some (Hand h) \<Rightarrow> Inr h)"

text \<open>The text of the announcement, lines 133-134.\<close>

definition announcement :: "string \<Rightarrow> card \<Rightarrow> string \<Rightarrow> string" where
  "announcement mention chosenCard flavor =
     mention @ '' draws the '' @ name chosenCard @ ''!'' @ [CHR 0x0A] @ ''_'' @ flavor @ ''_''
       @ [CHR 0x0A, CHR 0x0A] @ ''Requirements: '' @ requirements chosenCard"

text \<open>The body of the \<^verbatim>\<open>try\<close> block, lines 104-136.\<close>

definition drawCard_try :: "env \<Rightarrow> string \<Rightarrow> string \<Rightarrow> unit prog" where
  "drawCard_try env messageTs username =
     andThen (lift (transcript env ''drawing.start'')) (\<lambda>start.
     andThen (sendMessage env (userMention username @ '' '' @ start @ ''...'')
                (Some messageTs) None) (\<lambda>_.
     andThen (kv_get env (cooldown_key username)) (\<lambda>lastDraw.
     if truthy lastDraw then
       andThen (lift (transcript env ''drawing.too_soon'')) (\<lambda>too_soon.
       andThen (sendMessage env (userMention username @ '' '' @ too_soon)
                  (Some messageTs) None) (\<lambda>_.
       ret ()))
     else
       andThen (kv_set env (cooldown_key username) (Marker True) (Some (30 * 1000))) (\<lambda>_.
       andThen (kv_get env (hand_key username)) (\<lambda>stored.
       andThen (lift (hand_of stored)) (\<lambda>userHand.
       let chosen = randomCard env userHand in
       andThen (kv_set env (hand_key username) (Hand (userHand @ [chosen])) None) (\<lambda>_.
       let chosenCard = map_of (cards env) (item_string chosen) in
       andThen (lift (transcript env (''cards.'' @ item_string chosen @ ''.flavor''))) (\<lambda>flavor.
       case chosenCard of
         None \<Rightarrow> raise TypeError
       | Some c \<Rightarrow>
           andThen (sendMessage env (announcement (userMention username) c flavor)
                      (Some messageTs) None) (\<lambda>_.
           ret ())))))))))"

text \<open>
  \<^verbatim>\<open>drawCard\<close> (lines 97-141). The user name is \<open>None\<close> when the caller passes
  \<^verbatim>\<open>undefined\<close>; then \<^verbatim>\<open>username.startsWith\<close> raises before the \<^verbatim>\<open>try\<close> block.
\<close>

definition drawCard :: "env \<Rightarrow> string \<Rightarrow> string option \<Rightarrow> unit prog" where
  "drawCard env messageTs username =
     (case username of
        None \<Rightarrow> raise TypeError
      | Some un \<Rightarrow>
          andThen (react env messageTs ''beachball'' True) (\<lambda>_.
          tryCatch (drawCard_try env messageTs un)
            (\<lambda>error. andThen (emit (ConsoleError ''Error in drawCard:'' (Some error)))
                       (\<lambda>_. raise error))))"

subsection \<open>handleMessageEvent\<close>

text \<open>The body of the \<^verbatim>\<open>try\<close> block, lines 158-186. \<^verbatim>\<open>this.rootMessage?.messageTs\<close> is
  \<^verbatim>\<open>undefined\<close> when there is no session, and \<^verbatim>\<open>===\<close> holds between two
  \<^verbatim>\<open>undefined\<close>.\<close>

definition handleMessageEvent_try :: "env \<Rightarrow> event \<Rightarrow> unit prog" where
  "handleMessageEvent_try env event w =
     andThen (emit (ConsoleLog ''Received message event:'')) (\<lambda>_.
       if ev_channel event \<noteq> channelId w then
         emit (ConsoleLog ''Message is not in our channel, ignoring'')
       else if ev_thread_ts event = map_option rm_messageTs (rootMessage w) then
         (case ev_text event of
            None \<Rightarrow> raise TypeError
          | Some text \<Rightarrow>
              if toUpperCase env (trim text) = units ''DRAW'' then
                andThen (emit (ConsoleLog ''DRAW command detected, calling drawCard with messageTs:''))
                  (\<lambda>_.
                let username = (if truthy_string (ev_bot_id event) then Some ''The Fool''
                                else ev_user event)
                in drawCard env (ev_ts event) username)
              else ret ())
       else emit (ConsoleLog ''Message is not in our thread, ignoring''))
       w"

text \<open>\<^verbatim>\<open>handleMessageEvent\<close> (lines 156-190): whatever the body raises is logged.\<close>

definition handleMessageEvent :: "env \<Rightarrow> event \<Rightarrow> unit prog" where
  "handleMessageEvent env event =
     tryCatch (handleMessageEvent_try env event)
       (\<lambda>error. emit (ConsoleError ''Error handling message event:'' (Some error)))"

subsection \<open>Auxiliary notions\<close>

text \<open>The parameters that \<^verbatim>\<open>sendMessage(message, ts)\<close> builds in channel \<open>ch\<close>: no display
  name, and the thread of \<open>ts\<close> unless \<open>ts\<close> is the empty string.\<close>

definition thread_params :: "string \<Rightarrow> string \<Rightarrow> string \<Rightarrow> message_params" where
  "thread_params ch message ts =
     \<lparr>mp_channel = ch, mp_text = message,
      mp_thread_ts = (if ts = [] then None else Some ts), mp_username = None\<rparr>"

text \<open>A piece of program that only ever adds to the trace.\<close>

definition grows :: "'a prog \<Rightarrow> bool" where
  "grows m = (\<forall>w. \<exists>es. trace (snd (m w)) = trace w @ es)"

subsection \<open>A concrete deployment\<close>

text \<open>
  A catalogue of two cards, a channel with a session, a player and a draw request, on
  which the theorems below are run. The catalogue of texts answers the two phrases
  and the flavours, and any other key with the key itself; Slack accepts every post;
  \<^verbatim>\<open>Math.random()\<close> returns one half. The texts of the events are ASCII between white
  space, and the \<^verbatim>\<open>toUpperCase\<close> of this environment changes a..z and nothing else.
\<close>

definition demo_cards :: "(string \<times> card) list" where
  "demo_cards =
     [(''fool'', \<lparr>name = ''Fool'', requirements = ''none''\<rparr>),
      (''tower'', \<lparr>name = ''Tower'', requirements = ''bricks''\<rparr>)]"

definition demo_transcript :: "string \<Rightarrow> js_error + string" where
  "demo_transcript key =
     (if key = ''drawing.start'' then Inr ''shuffles''
      else if key = ''drawing.too_soon'' then Inr ''slow down''
      else if key = ''cards.fool.flavor'' then Inr ''a leap''
      else if key = ''cards.tower.flavor'' then Inr ''a fall''
      else Inr key)"

definition demo_env :: env where
  "demo_env =
     \<lparr>now = 1000, random = 1 / 2, transcript = demo_transcript, cards = demo_cards,
      postMessage = (\<lambda>n p. Inr \<lparr>res_channel = mp_channel p, res_ts = ''200''\<rparr>),
      reaction_error = None, kv_get_error = (\<lambda>key. None), kv_set_error = (\<lambda>key. None),
      write_error = None, toUpperCase = map ascii_upper\<rparr>"

definition demo_world :: world where
  "demo_world =
     \<lparr>channelId = ''C1'',
      rootMessage = Some \<lparr>rm_channelId = ''C1'', rm_messageTs = ''100''\<rparr>,
      kv = Map.empty, trace = []\<rparr>"

definition demo_event :: event where
  "demo_event =
     \<lparr>ev_channel = ''C1'', ev_thread_ts = Some ''100'', ev_text = Some (units '' draw ''),
      ev_ts = ''101'', ev_user = Some ''U7'', ev_bot_id = None\<rparr>"

section \<open>Running the pieces\<close>

lemmas prog_defs = ret_def raise_def andThen_def tryCatch_def emit_def lift_def

subsection \<open>Traces\<close>

lemma posts_append [simp]: "posts (xs @ ys) = posts xs @ posts ys"
  by (induction xs rule: posts.induct) simp_all

lemma store_ops_append [simp]: "store_ops (xs @ ys) = store_ops xs @ store_ops ys"
  by (induction xs rule: store_ops.induct) simp_all

lemma KvSet_store_ops: "KvSet k v t \<in> set (store_ops es) \<longleftrightarrow> KvSet k v t \<in> set es"
  by (induction es rule: store_ops.induct) auto

lemma KvGet_store_ops: "KvGet k \<in> set (store_ops es) \<longleftrightarrow> KvGet k \<in> set es"
  by (induction es rule: store_ops.induct) auto

subsection \<open>The result and the state after each piece\<close>

lemma andThen_alt:
  "andThen m f w = (case fst (m w) of Inl e \<Rightarrow> (Inl e, snd (m w)) | Inr x \<Rightarrow> f x (snd (m w)))"
  by (simp add: andThen_def split: prod.splits sum.splits)

lemma tryCatch_alt:
  "tryCatch m h w = (case fst (m w) of Inl e \<Rightarrow> h e (snd (m w)) | Inr x \<Rightarrow> (Inr x, snd (m w)))"
  by (simp add: tryCatch_def split: prod.splits sum.splits)

lemma basic_fst [simp]:
  "fst (ret x w) = Inr x" "fst (raise e w) = Inl e" "fst (lift r w) = r" "fst (emit ef w) = Inr ()"
  by (simp_all add: prog_defs)

lemma basic_snd [simp]:
  "snd (ret x w) = w" "snd (raise e w) = w" "snd (lift r w) = w"
  "snd (emit ef w) = w\<lparr>trace := trace w @ [ef]\<rparr>"
  by (simp_all add: prog_defs)

lemma react_fst [simp]: "fst (react env ts nm on w) = Inr ()"
  by (simp add: react_def prog_defs Let_def split: option.splits)

lemma react_snd [simp]:
  "kv (snd (react env ts nm on w)) = kv w"
  "channelId (snd (react env ts nm on w)) = channelId w"
  "rootMessage (snd (react env ts nm on w)) = rootMessage w"
  "posts (trace (snd (react env ts nm on w))) = posts (trace w)"
  "store_ops (trace (snd (react env ts nm on w))) = store_ops (trace w)"
  by (simp_all add: react_def prog_defs Let_def split: option.splits)

lemma sendMessage_fst [simp]:
  "fst (sendMessage env message (Some ts) None w)
     = postMessage env (length (posts (trace w))) (thread_params (channelId w) message ts)"
  by (simp add: sendMessage_def saveRootMessage_def prog_defs Let_def thread_params_def
      truthy_string_def split: option.splits sum.splits)

lemma sendMessage_snd [simp]:
  "kv (snd (sendMessage env message threadTs username w)) = kv w"
  "channelId (snd (sendMessage env message threadTs username w)) = channelId w"
  "posts (trace (snd (sendMessage env message (Some ts) None w)))
     = posts (trace w) @ [thread_params (channelId w) message ts]"
  "store_ops (trace (snd (sendMessage env message threadTs username w))) = store_ops (trace w)"
  by (simp_all add: sendMessage_def saveRootMessage_def prog_defs Let_def thread_params_def
      truthy_string_def split: option.splits sum.splits)

lemma kv_get_fst [simp]:
  "fst (kv_get env key w) =
     (case kv_get_error env key of
        Some e \<Rightarrow> Inl e
      | None \<Rightarrow> Inr (kv_lookup (kv w) (now env) key))"
  by (simp add: kv_get_def prog_defs split: option.splits)

lemma kv_get_snd [simp]:
  "kv (snd (kv_get env key w)) = kv w"
  "channelId (snd (kv_get env key w)) = channelId w"
  "posts (trace (snd (kv_get env key w))) = posts (trace w)"
  "store_ops (trace (snd (kv_get env key w))) = store_ops (trace w) @ [KvGet key]"
  by (simp_all add: kv_get_def prog_defs split: option.splits)

lemma kv_set_fst [simp]:
  "fst (kv_set env key v ttl w) = (case kv_set_error env key of Some e \<Rightarrow> Inl e | None \<Rightarrow> Inr ())"
  by (simp add: kv_set_def prog_defs split: option.splits)

lemma kv_set_snd [simp]:
  "kv (snd (kv_set env key v ttl w)) =
     (case kv_set_error env key of
        Some e \<Rightarrow> kv w
      | None \<Rightarrow> (kv w)(key \<mapsto> (v, map_option (\<lambda>ms. now env + ms) ttl)))"
  "channelId (snd (kv_set env key v ttl w)) = channelId w"
  "posts (trace (snd (kv_set env key v ttl w))) = posts (trace w)"
  "store_ops (trace (snd (kv_set env key v ttl w))) = store_ops (trace w) @ [KvSet key v ttl]"
  by (simp_all add: kv_set_def prog_defs split: option.splits)

lemma key_neq [simp]: "cooldown_key a \<noteq> hand_key b" "hand_key a \<noteq> cooldown_key b"
  by (simp_all add: cooldown_key_def hand_key_def)

lemma kv_lookup_upd [simp]:
  "kv_lookup (m(k \<mapsto> (v, ex))) t k' =
     (if k' = k
      then (case ex of None \<Rightarrow> Some v | Some expiry \<Rightarrow> if t < expiry then Some v else None)
      else kv_lookup m t k')"
  by (simp add: kv_lookup_def)

subsection \<open>Every piece only adds to the trace\<close>

lemma new_effects_append: "trace w' = trace w @ es \<Longrightarrow> new_effects w w' = es"
  by (simp add: new_effects_def)

lemma grows_basic [simp]: "grows (ret x)" "grows (raise e)" "grows (lift r)" "grows (emit ef)"
  by (simp_all add: grows_def prog_defs)

lemma grows_andThen: "grows m \<Longrightarrow> (\<And>x. grows (f x)) \<Longrightarrow> grows (andThen m f)"
  unfolding grows_def andThen_alt
  apply (intro allI)
  subgoal for w
    apply (cases "fst (m w)")
     apply simp
    apply simp
    apply (metis append.assoc)
    done
  done

lemma grows_tryCatch: "grows m \<Longrightarrow> (\<And>e. grows (h e)) \<Longrightarrow> grows (tryCatch m h)"
  unfolding grows_def tryCatch_alt
  apply (intro allI)
  subgoal for w
    apply (cases "fst (m w)")
     apply simp
     apply (metis append.assoc)
    apply simp
    done
  done

lemma grows_if: "grows a \<Longrightarrow> grows b \<Longrightarrow> grows (if c then a else b)"
  by simp

lemma grows_case_option:
  "grows a \<Longrightarrow> (\<And>x. grows (f x)) \<Longrightarrow> grows (case v of None \<Rightarrow> a | Some x \<Rightarrow> f x)"
  by (cases v) simp_all

lemma grows_react: "grows (react env ts nm on)"
  by (simp add: grows_def react_def prog_defs Let_def split: option.splits)

lemma grows_sendMessage: "grows (sendMessage env message threadTs username)"
  by (simp add: grows_def sendMessage_def saveRootMessage_def prog_defs Let_def split: option.splits sum.splits)

lemma grows_kv_get: "grows (kv_get env key)"
  by (simp add: grows_def kv_get_def prog_defs split: option.splits)

lemma grows_kv_set: "grows (kv_set env key v ttl)"
  by (simp add: grows_def kv_set_def prog_defs split: option.splits)

lemmas grows_intros = grows_andThen grows_tryCatch grows_if grows_case_option grows_react grows_sendMessage
  grows_kv_get grows_kv_set grows_basic

lemma grows_drawCard_try: "grows (drawCard_try env ts un)"
  unfolding drawCard_try_def Let_def
  by (intro grows_intros)

lemma grows_drawCard: "grows (drawCard env ts u)"
  unfolding drawCard_def
  by (intro grows_intros grows_drawCard_try)

lemma grows_reader: "(\<And>w0. grows (f w0)) \<Longrightarrow> grows (\<lambda>w. f w w)"
  by (simp add: grows_def)

lemma grows_handleMessageEvent_try: "grows (handleMessageEvent_try env ev)"
proof -
  have "grows (\<lambda>w. handleMessageEvent_try env ev w)"
    unfolding handleMessageEvent_try_def Let_def
    by (rule grows_reader) (intro grows_intros grows_drawCard)
  thus ?thesis .
qed

lemma grows_handleMessageEvent: "grows (handleMessageEvent env ev)"
  unfolding handleMessageEvent_def
  by (intro grows_intros grows_handleMessageEvent_try)

lemma grows_new_effects:
  assumes "grows m"
  shows "trace (snd (m w)) = trace w @ new_effects w (snd (m w))"
proof -
  obtain es where "trace (snd (m w)) = trace w @ es"
    using assms unfolding grows_def by blast
  thus ?thesis by (simp add: new_effects_def)
qed

lemma drawCard_store_ops_new:
  "store_ops (trace (snd (drawCard env ts u w)))
     = store_ops (trace w) @ store_ops (new_effects w (snd (drawCard env ts u w)))"
  using grows_new_effects[OF grows_drawCard, of env ts u w]
  by (metis store_ops_append)

lemma randomCard_available:
  assumes "0 \<le> random env" "random env < 1" "availableCards (cards env) h \<noteq> []"
  shows "\<exists>k. randomCard env h = Card k \<and> k \<in> set (availableCards (cards env) h)"
proof -
  let ?n = "length (availableCards (cards env) h)"
  have n: "0 < real ?n" using assms(3) by simp
  have "random env * real ?n < real ?n"
    using assms(2) n by simp
  moreover have "0 \<le> random env * real ?n" using assms(1) by simp
  ultimately have i: "0 \<le> \<lfloor>random env * real ?n\<rfloor>" "\<lfloor>random env * real ?n\<rfloor> < int ?n"
    by (simp_all add: floor_less_iff)
  hence "nat \<lfloor>random env * real ?n\<rfloor> < ?n"
    by linarith
  hence mem: "availableCards (cards env) h ! nat \<lfloor>random env * real ?n\<rfloor>
           \<in> set (availableCards (cards env) h)"
    by (rule nth_mem)
  have "randomCard env h = Card (availableCards (cards env) h ! nat \<lfloor>random env * real ?n\<rfloor>)"
    using i by (simp add: randomCard_def Let_def at_index_def)
  with mem show ?thesis
    by blast
qed

lemma drawCard_posts_new:
  "posts (trace (snd (drawCard env ts u w)))
     = posts (trace w) @ posts (new_effects w (snd (drawCard env ts u w)))"
  using grows_new_effects[OF grows_drawCard, of env ts u w]
  by (metis posts_append)

subsection \<open>Values of the store\<close>

lemma kv_lookup_empty [simp]: "kv_lookup Map.empty t key = None"
  by (simp add: kv_lookup_def)

lemma hand_of_simps [simp]:
  "hand_of None = Inr []" "hand_of (Some (Hand h)) = Inr h"
  "hand_of (Some (Marker True)) = Inl TypeError" "hand_of (Some (Marker False)) = Inr []"
  by (simp_all add: hand_of_def)

lemma truthy_simps [simp]:
  "truthy None = False" "truthy (Some (Marker b)) = b" "truthy (Some (Hand h)) = True"
  by (simp_all add: truthy_def)

subsection \<open>The concrete deployment\<close>

lemma demo_env_simps [simp]:
  "now demo_env = 1000" "random demo_env = 1 / 2" "transcript demo_env = demo_transcript"
  "cards demo_env = demo_cards"
  "postMessage demo_env n p = Inr \<lparr>res_channel = mp_channel p, res_ts = ''200''\<rparr>"
  "reaction_error demo_env = None" "kv_get_error demo_env key = None"
  "kv_set_error demo_env key = None" "write_error demo_env = None"
  "toUpperCase demo_env = map ascii_upper"
  by (simp_all add: demo_env_def)

lemma demo_world_simps [simp]:
  "channelId demo_world = ''C1''"
  "rootMessage demo_world = Some \<lparr>rm_channelId = ''C1'', rm_messageTs = ''100''\<rparr>"
  "kv demo_world = Map.empty" "trace demo_world = []"
  by (simp_all add: demo_world_def)

lemma demo_transcript_simps [simp]:
  "demo_transcript ''drawing.start'' = Inr ''shuffles''"
  "demo_transcript ''drawing.too_soon'' = Inr ''slow down''"
  "demo_transcript ''cards.fool.flavor'' = Inr ''a leap''"
  "demo_transcript ''cards.tower.flavor'' = Inr ''a fall''"
  "demo_transcript ''cards.undefined.flavor'' = Inr ''cards.undefined.flavor''"
  by (simp_all add: demo_transcript_def)

lemma demo_texts [simp]:
  "map ascii_upper (trim (units '' draw '')) = units ''DRAW''"
  "map ascii_upper (trim (units ''Draw'')) = units ''DRAW''"
  "map ascii_upper (trim (units ''DRAW'')) = units ''DRAW''"
  "map ascii_upper (trim (units ''draws'')) \<noteq> units ''DRAW''"
  "map ascii_upper (trim (0x00A0 # units ''draw'' @ [0x00A0])) = units ''DRAW''"
  by (simp_all add: units_def trim_def isWhiteSpace_def ascii_upper_def)

lemma demo_randomCard [simp]:
  "random env = 1 / 2 \<Longrightarrow> cards env = demo_cards \<Longrightarrow> randomCard env [] = Card ''tower''"
  "random env = 1 / 2 \<Longrightarrow> cards env = demo_cards \<Longrightarrow> randomCard env [Card ''fool''] = Card ''tower''"
  "cards env = demo_cards \<Longrightarrow> randomCard env [Card ''fool'', Card ''tower''] = Undefined"
  by (simp_all add: randomCard_def availableCards_def at_index_def demo_cards_def)

lemmas drawCard_unfold = drawCard_def drawCard_try_def andThen_alt tryCatch_alt Let_def

section \<open>Runs of drawCard\<close>

text \<open>A draw that finds the cooldown marker writes nothing to the store.\<close>

lemma drawCard_rejected_frame:
  assumes "truthy (kv_lookup (kv w) (now env) (cooldown_key un))"
  shows "kv (snd (drawCard env ts (Some un) w)) = kv w"
  using assms by (simp add: drawCard_unfold split: sum.splits option.splits)

lemma drawCard_rejected_ops:
  assumes "store_ops (trace (snd (drawCard env ts (Some un) w))) = store_ops (trace w) @ ops"
    and "truthy (kv_lookup (kv w) (now env) (cooldown_key un))"
  shows "KvSet k v t \<notin> set ops"
  using assms by (auto simp: drawCard_unfold split: sum.splits option.splits)

lemma drawCard_rejected_run:
  assumes "truthy (kv_lookup (kv w) (now env) (cooldown_key un))"
    and "transcript env ''drawing.start'' = Inr s"
    and "postMessage env (length (posts (trace w)))
           (thread_params (channelId w) (userMention un @ '' '' @ s @ ''...'') ts) = Inr r1"
    and "kv_get_error env (cooldown_key un) = None"
    and "transcript env ''drawing.too_soon'' = Inr t"
    and "postMessage env (Suc (length (posts (trace w))))
           (thread_params (channelId w) (userMention un @ '' '' @ t) ts) = Inr r2"
  shows "fst (drawCard env ts (Some un) w) = Inr ()"
    and "posts (trace (snd (drawCard env ts (Some un) w))) = posts (trace w) @
           [thread_params (channelId w) (userMention un @ '' '' @ s @ ''...'') ts,
            thread_params (channelId w) (userMention un @ '' '' @ t) ts]"
  using assms by (simp_all add: drawCard_unfold)

text \<open>Whenever a draw writes a hand, it is the hand read plus the selected item.\<close>

lemma drawCard_hand_written:
  assumes "store_ops (trace (snd (drawCard env ts (Some un) w))) = store_ops (trace w) @ ops"
    and "KvSet (hand_key un) v ttl \<in> set ops"
    and "hand_of (kv_lookup (kv w) (now env) (hand_key un)) = Inr h"
  shows "v = Hand (h @ [randomCard env h]) \<and> ttl = None"
  using assms
  by (auto simp: drawCard_unfold split: sum.splits option.splits if_splits)

text \<open>The run of a draw that gets as far as the announcement.\<close>

lemma drawCard_deal_run:
  assumes "transcript env ''drawing.start'' = Inr s"
    and "postMessage env (length (posts (trace w)))
           (thread_params (channelId w) (userMention un @ '' '' @ s @ ''...'') ts) = Inr r1"
    and "kv_get_error env (cooldown_key un) = None"
    and "\<not> truthy (kv_lookup (kv w) (now env) (cooldown_key un))"
    and "kv_set_error env (cooldown_key un) = None"
    and "kv_get_error env (hand_key un) = None"
    and "hand_of (kv_lookup (kv w) (now env) (hand_key un)) = Inr h"
    and "kv_set_error env (hand_key un) = None"
    and "transcript env (''cards.'' @ item_string (randomCard env h) @ ''.flavor'') = Inr fl"
    and "map_of (cards env) (item_string (randomCard env h)) = Some c"
  shows "fst (drawCard env ts (Some un) w) =
           map_sum id (\<lambda>_. ()) (postMessage env (Suc (length (posts (trace w))))
              (thread_params (channelId w) (announcement (userMention un) c fl) ts))"
    and "kv (snd (drawCard env ts (Some un) w)) =
           (kv w)(cooldown_key un \<mapsto> (Marker True, Some (now env + 30000)),
                  hand_key un \<mapsto> (Hand (h @ [randomCard env h]), None))"
    and "posts (trace (snd (drawCard env ts (Some un) w))) = posts (trace w) @
           [thread_params (channelId w) (userMention un @ '' '' @ s @ ''...'') ts,
            thread_params (channelId w) (announcement (userMention un) c fl) ts]"
    and "store_ops (trace (snd (drawCard env ts (Some un) w))) = store_ops (trace w) @
           [KvGet (cooldown_key un), KvSet (cooldown_key un) (Marker True) (Some 30000),
            KvGet (hand_key un), KvSet (hand_key un) (Hand (h @ [randomCard env h])) None]"
  using assms by (simp_all add: drawCard_unfold split: sum.splits)

lemma drawCard_committed_ops:
  assumes "store_ops (trace (snd (drawCard env ts (Some un) w))) = store_ops (trace w) @ ops"
    and "transcript env ''drawing.start'' = Inr s"
    and "postMessage env (length (posts (trace w)))
           (thread_params (channelId w) (userMention un @ '' '' @ s @ ''...'') ts) = Inr r1"
    and "kv_get_error env (cooldown_key un) = None"
    and "\<not> truthy (kv_lookup (kv w) (now env) (cooldown_key un))"
  shows "\<exists>rest. ops = [KvGet (cooldown_key un), KvSet (cooldown_key un) (Marker True) (Some 30000)] @ rest
           \<and> (\<forall>op \<in> set rest. op = KvGet (hand_key un) \<or> (\<exists>v. op = KvSet (hand_key un) v None))"
  using assms by (auto simp: drawCard_unfold split: sum.splits option.splits)

lemma drawCard_committed_kv:
  assumes "transcript env ''drawing.start'' = Inr s"
    and "postMessage env (length (posts (trace w)))
           (thread_params (channelId w) (userMention un @ '' '' @ s @ ''...'') ts) = Inr r1"
    and "kv_get_error env (cooldown_key un) = None"
    and "\<not> truthy (kv_lookup (kv w) (now env) (cooldown_key un))"
    and "kv_set_error env (cooldown_key un) = None"
  shows "kv (snd (drawCard env ts (Some un) w)) (cooldown_key un)
           = Some (Marker True, Some (now env + 30000))"
  using assms by (simp add: drawCard_unfold split: sum.splits option.splits)

lemma drawCard_fst_try:
  "fst (drawCard env ts (Some un) w)
     = fst (drawCard_try env ts un (snd (react env ts ''beachball'' True w)))"
  by (simp add: drawCard_def andThen_alt tryCatch_alt split: sum.splits)

lemma fst_eq_pair: "fst p = a \<Longrightarrow> p = (a, snd p)"
  by (cases p) simp

lemma drawCard_posts_mention:
  assumes "posts (trace (snd (drawCard env ts (Some un) w))) = posts (trace w) @ ps"
    and "p \<in> set ps"
  shows "\<exists>rest. mp_text p = userMention un @ '' '' @ rest"
  using assms
  by (auto simp: drawCard_unfold thread_params_def announcement_def
      split: sum.splits option.splits if_splits)

lemma drawCard_ops_keys:
  assumes "store_ops (trace (snd (drawCard env ts (Some un) w))) = store_ops (trace w) @ ops"
    and "op \<in> set ops"
  shows "op = KvGet (cooldown_key un) \<or> op = KvGet (hand_key un)
       \<or> (\<exists>v t. op = KvSet (cooldown_key un) v t) \<or> (\<exists>v t. op = KvSet (hand_key un) v t)"
  using assms
  by (auto simp: drawCard_unfold split: sum.splits option.splits if_splits)

text \<open>The run of a draw on an exhausted deck, up to the point where it stops.\<close>

lemma randomCard_exhausted:
  "availableCards (cards env) h = [] \<Longrightarrow> randomCard env h = Undefined"
  by (simp add: randomCard_def at_index_def)

lemma drawCard_exhausted_run:
  assumes "transcript env ''drawing.start'' = Inr s"
    and "postMessage env (length (posts (trace w)))
           (thread_params (channelId w) (userMention un @ '' '' @ s @ ''...'') ts) = Inr r1"
    and "kv_get_error env (cooldown_key un) = None"
    and "\<not> truthy (kv_lookup (kv w) (now env) (cooldown_key un))"
    and "kv_set_error env (cooldown_key un) = None"
    and "kv_get_error env (hand_key un) = None"
    and "hand_of (kv_lookup (kv w) (now env) (hand_key un)) = Inr h"
    and "availableCards (cards env) h = []"
    and "kv_set_error env (hand_key un) = None"
    and "map_of (cards env) ''undefined'' = None"
  shows "fst (drawCard env ts (Some un) w) =
           Inl (case transcript env ''cards.undefined.flavor'' of Inl e \<Rightarrow> e | Inr fl \<Rightarrow> TypeError)"
    and "kv (snd (drawCard env ts (Some un) w)) =
           (kv w)(cooldown_key un \<mapsto> (Marker True, Some (now env + 30000)),
                  hand_key un \<mapsto> (Hand (h @ [Undefined]), None))"
    and "posts (trace (snd (drawCard env ts (Some un) w))) = posts (trace w) @
           [thread_params (channelId w) (userMention un @ '' '' @ s @ ''...'') ts]"
  using assms
  by (simp_all add: drawCard_unfold randomCard_exhausted item_string_def split: sum.splits)

lemma drawCard_channelId [simp]: "channelId (snd (drawCard env ts u w)) = channelId w"
  by (cases u) (simp_all add: drawCard_unfold split: sum.splits option.splits)

section \<open>Runs of handleMessageEvent\<close>

lemma handleMessageEvent_run:
  assumes "ev_channel ev = channelId w"
    and "ev_thread_ts ev = map_option rm_messageTs (rootMessage w)"
    and "ev_text ev = Some text"
  shows "handleMessageEvent env ev w =
     (if toUpperCase env (trim text) = units ''DRAW''
      then tryCatch
             (drawCard env (ev_ts ev)
                (if truthy_string (ev_bot_id ev) then Some ''The Fool'' else ev_user ev))
             (\<lambda>error. emit (ConsoleError ''Error handling message event:'' (Some error)))
             (w\<lparr>trace := trace w @
                 [ConsoleLog ''Received message event:'',
                  ConsoleLog ''DRAW command detected, calling drawCard with messageTs:'']\<rparr>)
      else (Inr (), w\<lparr>trace := trace w @ [ConsoleLog ''Received message event:'']\<rparr>))"
  using assms
  by (simp add: handleMessageEvent_def handleMessageEvent_try_def prog_defs Let_def
      split: prod.splits sum.splits)

text \<open>An event of the channel whose thread timestamp is not that of the session (or is
  there when no session is) is logged and ignored.\<close>

lemma handleMessageEvent_ignored:
  assumes "ev_channel ev = channelId w"
    and "ev_thread_ts ev \<noteq> map_option rm_messageTs (rootMessage w)"
  shows "handleMessageEvent env ev w =
     (Inr (), w\<lparr>trace := trace w @
        [ConsoleLog ''Received message event:'',
         ConsoleLog ''Message is not in our thread, ignoring'']\<rparr>)"
  using assms
  by (simp add: handleMessageEvent_def handleMessageEvent_try_def prog_defs)

lemma logged_catch [simp]:
  "fst (tryCatch m (\<lambda>error. emit (ConsoleError label (Some error))) w) = Inr ()"
  "kv (snd (tryCatch m (\<lambda>error. emit (ConsoleError label (Some error))) w)) = kv (snd (m w))"
  "posts (trace (snd (tryCatch m (\<lambda>error. emit (ConsoleError label (Some error))) w)))
     = posts (trace (snd (m w)))"
  "store_ops (trace (snd (tryCatch m (\<lambda>error. emit (ConsoleError label (Some error))) w)))
     = store_ops (trace (snd (m w)))"
  by (simp_all add: tryCatch_alt split: sum.splits)

lemma handleMessageEvent_new:
  "posts (trace (snd (handleMessageEvent env ev w)))
     = posts (trace w) @ posts (new_effects w (snd (handleMessageEvent env ev w)))"
  "store_ops (trace (snd (handleMessageEvent env ev w)))
     = store_ops (trace w) @ store_ops (new_effects w (snd (handleMessageEvent env ev w)))"
  using grows_new_effects[OF grows_handleMessageEvent, of env ev w]
  by (metis posts_append, metis store_ops_append)

lemma handleMessageEvent_draw:
  assumes "ev_channel ev = channelId w"
    and "ev_thread_ts ev = map_option rm_messageTs (rootMessage w)"
    and "ev_text ev = Some msg" and "toUpperCase env (trim msg) = units ''DRAW''"
    and "(if truthy_string (ev_bot_id ev) then Some ''The Fool'' else ev_user ev) = Some actor"
  shows "fst (handleMessageEvent env ev w) = Inr ()"
    and "kv (snd (handleMessageEvent env ev w)) =
           kv (snd (drawCard env (ev_ts ev) (Some actor)
             (w\<lparr>trace := trace w @
                 [ConsoleLog ''Received message event:'',
                  ConsoleLog ''DRAW command detected, calling drawCard with messageTs:'']\<rparr>)))"
    and "posts (trace (snd (handleMessageEvent env ev w))) =
           posts (trace (snd (drawCard env (ev_ts ev) (Some actor)
             (w\<lparr>trace := trace w @
                 [ConsoleLog ''Received message event:'',
                  ConsoleLog ''DRAW command detected, calling drawCard with messageTs:'']\<rparr>))))"
    and "store_ops (trace (snd (handleMessageEvent env ev w))) =
           store_ops (trace (snd (drawCard env (ev_ts ev) (Some actor)
             (w\<lparr>trace := trace w @
                 [ConsoleLog ''Received message event:'',
                  ConsoleLog ''DRAW command detected, calling drawCard with messageTs:'']\<rparr>))))"
  using handleMessageEvent_run[OF assms(1-3), of env] assms(4,5)
  by simp_all






section \<open>The claims\<close>

subsection \<open>C1\<close>

text \<open>
  C1. Whenever \<^verbatim>\<open>drawCard\<close> writes a player's hand and the hand \<open>h\<close> it read does not hold
  every key of the catalogue, the value written is \<open>h\<close> with one card key appended;
  that key is a key of the catalogue and is not in \<open>h\<close>, so a hand without
  duplicates stays without duplicates. \<^verbatim>\<open>Math.random()\<close> returns a number from 0
  (included) to 1 (excluded).
\<close>

theorem drawCard_draws_new_card:
  assumes rnd: "0 \<le> random env" "random env < 1"
    and hand: "hand_of (kv_lookup (kv w) (now env) (hand_key un)) = Inr h"
    and avail: "availableCards (cards env) h \<noteq> []"
    and written: "KvSet (hand_key un) v ttl
                    \<in> set (new_effects w (snd (drawCard env ts (Some un) w)))"
  shows "\<exists>k. v = Hand (h @ [Card k]) \<and> ttl = None
           \<and> k \<in> set (map fst (cards env)) \<and> Card k \<notin> set h
           \<and> (distinct h \<longrightarrow> distinct (h @ [Card k]))"
proof -
  obtain k where k: "randomCard env h = Card k" "k \<in> set (availableCards (cards env) h)"
    using randomCard_available[OF rnd avail] by blast
  have mem: "KvSet (hand_key un) v ttl
               \<in> set (store_ops (new_effects w (snd (drawCard env ts (Some un) w))))"
    using written by (simp add: KvSet_store_ops)
  have "v = Hand (h @ [randomCard env h]) \<and> ttl = None"
    by (rule drawCard_hand_written[OF drawCard_store_ops_new mem hand])
  thus ?thesis using k by (auto simp: availableCards_def)
qed

theorem drawCard_draws_new_card_witness:
  "KvSet (hand_key ''U7'') (Hand [Card ''fool'', Card ''tower'']) None
     \<in> set (new_effects (demo_world\<lparr>kv := [hand_key ''U7'' \<mapsto> (Hand [Card ''fool''], None)]\<rparr>)
           (snd (drawCard demo_env ''101'' (Some ''U7'')
              (demo_world\<lparr>kv := [hand_key ''U7'' \<mapsto> (Hand [Card ''fool''], None)]\<rparr>))))
   \<and> ''tower'' \<in> set (map fst (cards demo_env))
   \<and> Card ''tower'' \<notin> set [Card ''fool'']
   \<and> distinct [Card ''fool'', Card ''tower'']"
proof -
  let ?w = "demo_world\<lparr>kv := [hand_key ''U7'' \<mapsto> (Hand [Card ''fool''], None)]\<rparr>"
  have r1: "0 \<le> random demo_env" and r2: "random demo_env < 1"
    by simp_all
  have hand: "hand_of (kv_lookup (kv ?w) (now demo_env) (hand_key ''U7'')) = Inr [Card ''fool'']"
    by simp
  have avail: "availableCards (cards demo_env) [Card ''fool''] \<noteq> []"
    by (simp add: availableCards_def demo_cards_def)
  have ops: "store_ops (trace (snd (drawCard demo_env ''101'' (Some ''U7'') ?w))) = store_ops (trace ?w) @
           [KvGet (cooldown_key ''U7''), KvSet (cooldown_key ''U7'') (Marker True) (Some 30000),
            KvGet (hand_key ''U7''),
            KvSet (hand_key ''U7'') (Hand ([Card ''fool''] @ [randomCard demo_env [Card ''fool'']])) None]"
    by (rule drawCard_deal_run(4)[where s = "''shuffles''" and fl = "''a fall''"
          and c = "\<lparr>name = ''Tower'', requirements = ''bricks''\<rparr>"])
       (simp_all add: item_string_def demo_cards_def)
  have written: "KvSet (hand_key ''U7'') (Hand [Card ''fool'', Card ''tower'']) None
     \<in> set (new_effects ?w (snd (drawCard demo_env ''101'' (Some ''U7'') ?w)))"
    using ops drawCard_store_ops_new[of demo_env "''101''" "Some ''U7''" ?w]
      KvSet_store_ops[of "hand_key ''U7''" "Hand [Card ''fool'', Card ''tower'']" None
        "new_effects ?w (snd (drawCard demo_env ''101'' (Some ''U7'') ?w))"]
    by simp
  show ?thesis
    using drawCard_draws_new_card[OF r1 r2 hand avail written] written
    by (simp add: demo_cards_def)
qed

subsection \<open>C2\<close>

text \<open>
  C2. A draw request of a player whose cooldown marker is in the store leaves the
  store as it is: no hand and no marker is written, whatever the collaborators
  answer. When the two phrases are found, the store answers and Slack accepts the
  posts, \<^verbatim>\<open>drawCard\<close> returns normally after two posts, the second being the
  too-soon phrase in the thread of the triggering message.
\<close>

theorem drawCard_too_soon:
  assumes run: "drawCard env ts (Some un) w = (res, w')"
    and cooldown: "truthy (kv_lookup (kv w) (now env) (cooldown_key un))"
  shows "kv w' = kv w
    \<and> (\<forall>k v t. KvSet k v t \<notin> set (new_effects w w'))
    \<and> (ts \<noteq> [] \<and> transcript env ''drawing.start'' = Inr s
        \<and> postMessage env (length (posts (trace w)))
             (thread_params (channelId w) (userMention un @ '' '' @ s @ ''...'') ts) = Inr r1
        \<and> kv_get_error env (cooldown_key un) = None
        \<and> transcript env ''drawing.too_soon'' = Inr t
        \<and> postMessage env (Suc (length (posts (trace w))))
             (thread_params (channelId w) (userMention un @ '' '' @ t) ts) = Inr r2
       \<longrightarrow> res = Inr ()
         \<and> posts (new_effects w w') =
             [thread_params (channelId w) (userMention un @ '' '' @ s @ ''...'') ts,
              \<lparr>mp_channel = channelId w, mp_text = userMention un @ '' '' @ t,
               mp_thread_ts = Some ts, mp_username = None\<rparr>])"
proof -
  have w': "w' = snd (drawCard env ts (Some un) w)"
    and res: "res = fst (drawCard env ts (Some un) w)"
    using run by simp_all
  have "kv w' = kv w"
    unfolding w' by (rule drawCard_rejected_frame[OF cooldown])
  moreover have "KvSet k v t \<notin> set (new_effects w w')" for k v t
    using drawCard_rejected_ops[OF drawCard_store_ops_new cooldown, where k=k and v=v and t=t]
    by (simp add: KvSet_store_ops w')
  moreover have "res = Inr () \<and> posts (new_effects w w') =
             [thread_params (channelId w) (userMention un @ '' '' @ s @ ''...'') ts,
              \<lparr>mp_channel = channelId w, mp_text = userMention un @ '' '' @ t,
               mp_thread_ts = Some ts, mp_username = None\<rparr>]"
    if ok: "ts \<noteq> []" "transcript env ''drawing.start'' = Inr s"
        "postMessage env (length (posts (trace w)))
             (thread_params (channelId w) (userMention un @ '' '' @ s @ ''...'') ts) = Inr r1"
        "kv_get_error env (cooldown_key un) = None"
        "transcript env ''drawing.too_soon'' = Inr t"
        "postMessage env (Suc (length (posts (trace w))))
             (thread_params (channelId w) (userMention un @ '' '' @ t) ts) = Inr r2"
  proof -
    note r = drawCard_rejected_run[OF cooldown ok(2-6)]
    have "posts (new_effects w w') =
           [thread_params (channelId w) (userMention un @ '' '' @ s @ ''...'') ts,
            thread_params (channelId w) (userMention un @ '' '' @ t) ts]"
      using r(2) drawCard_posts_new[of env ts "Some un" w] by (simp add: w')
    thus ?thesis using r(1) ok(1) by (simp add: res thread_params_def)
  qed
  ultimately show ?thesis by blast
qed

theorem drawCard_too_soon_witness:
  "fst (drawCard demo_env ''101'' (Some ''U7'')
          (demo_world\<lparr>kv := [cooldown_key ''U7'' \<mapsto> (Marker True, Some 20000)]\<rparr>)) = Inr ()
   \<and> kv (snd (drawCard demo_env ''101'' (Some ''U7'')
          (demo_world\<lparr>kv := [cooldown_key ''U7'' \<mapsto> (Marker True, Some 20000)]\<rparr>)))
       = [cooldown_key ''U7'' \<mapsto> (Marker True, Some 20000)]
   \<and> posts (new_effects (demo_world\<lparr>kv := [cooldown_key ''U7'' \<mapsto> (Marker True, Some 20000)]\<rparr>)
        (snd (drawCard demo_env ''101'' (Some ''U7'')
          (demo_world\<lparr>kv := [cooldown_key ''U7'' \<mapsto> (Marker True, Some 20000)]\<rparr>))))
       = [\<lparr>mp_channel = ''C1'', mp_text = ''<@U7> shuffles...'',
            mp_thread_ts = Some ''101'', mp_username = None\<rparr>,
          \<lparr>mp_channel = ''C1'', mp_text = ''<@U7> slow down'',
            mp_thread_ts = Some ''101'', mp_username = None\<rparr>]"
proof -
  let ?w = "demo_world\<lparr>kv := [cooldown_key ''U7'' \<mapsto> (Marker True, Some 20000)]\<rparr>"
  have run: "drawCard demo_env ''101'' (Some ''U7'') ?w
     = (fst (drawCard demo_env ''101'' (Some ''U7'') ?w),
        snd (drawCard demo_env ''101'' (Some ''U7'') ?w))"
    by simp
  have cooldown: "truthy (kv_lookup (kv ?w) (now demo_env) (cooldown_key ''U7''))"
    by simp
  show ?thesis
    using drawCard_too_soon[OF run cooldown, where s = "''shuffles''" and t = "''slow down''"
        and ?r1.0 = "\<lparr>res_channel = ''C1'', res_ts = ''200''\<rparr>"
        and ?r2.0 = "\<lparr>res_channel = ''C1'', res_ts = ''200''\<rparr>"]
    by (simp add: thread_params_def userMention_def startsWith_def)
qed

subsection \<open>C3\<close>

text \<open>
  C3. The claim is that without a session no event triggers a draw. The code compares
  the thread timestamp of the event with \<^verbatim>\<open>this.rootMessage?.messageTs\<close>, which is
  \<^verbatim>\<open>undefined\<close> when there is no session, and a message posted to the channel
  outside any thread has no thread timestamp either. Here the bot has no session and
  the player posts \<^verbatim>\<open>DRAW\<close> to the channel: a card is dealt and announced.
\<close>

theorem handleMessageEvent_draws_without_session:
  "fst (handleMessageEvent demo_env
          (demo_event\<lparr>ev_thread_ts := None, ev_text := Some (units ''DRAW'')\<rparr>)
          (demo_world\<lparr>rootMessage := None\<rparr>)) = Inr ()
   \<and> kv (snd (handleMessageEvent demo_env
          (demo_event\<lparr>ev_thread_ts := None, ev_text := Some (units ''DRAW'')\<rparr>)
          (demo_world\<lparr>rootMessage := None\<rparr>))) (hand_key ''U7'')
       = Some (Hand [Card ''tower''], None)
   \<and> map mp_text (posts (trace (snd (handleMessageEvent demo_env
          (demo_event\<lparr>ev_thread_ts := None, ev_text := Some (units ''DRAW'')\<rparr>)
          (demo_world\<lparr>rootMessage := None\<rparr>)))))
       = [''<@U7> shuffles...'',
          announcement ''<@U7>'' \<lparr>name = ''Tower'', requirements = ''bricks''\<rparr> ''a fall'']"
proof -
  let ?ev = "demo_event\<lparr>ev_thread_ts := None, ev_text := Some (units ''DRAW'')\<rparr>"
  let ?w = "demo_world\<lparr>rootMessage := None\<rparr>"
  let ?w1 = "?w\<lparr>trace := trace ?w @
                 [ConsoleLog ''Received message event:'',
                  ConsoleLog ''DRAW command detected, calling drawCard with messageTs:'']\<rparr>"
  have ev: "ev_channel ?ev = channelId ?w"
    "ev_thread_ts ?ev = map_option rm_messageTs (rootMessage ?w)"
    "ev_text ?ev = Some (units ''DRAW'')"
    "toUpperCase demo_env (trim (units ''DRAW'')) = units ''DRAW''"
    "(if truthy_string (ev_bot_id ?ev) then Some ''The Fool'' else ev_user ?ev) = Some ''U7''"
    by (simp_all add: demo_event_def truthy_string_def)
  have ts: "ev_ts ?ev = ''101''"
    by (simp add: demo_event_def)
  note h = handleMessageEvent_draw[OF ev, unfolded ts]
  note d = drawCard_deal_run[where env = demo_env and w = ?w1 and un = "''U7''" and ts = "''101''"
      and s = "''shuffles''" and fl = "''a fall''" and h = "[]"
      and c = "\<lparr>name = ''Tower'', requirements = ''bricks''\<rparr>"
      and ?r1.0 = "\<lparr>res_channel = ''C1'', res_ts = ''200''\<rparr>"]
  have k: "kv (snd (drawCard demo_env ''101'' (Some ''U7'') ?w1)) (hand_key ''U7'')
       = Some (Hand [Card ''tower''], None)"
    by (subst d(2)) (simp_all add: item_string_def demo_cards_def thread_params_def)
  have p: "posts (trace (snd (drawCard demo_env ''101'' (Some ''U7'') ?w1))) =
       [thread_params ''C1'' (userMention ''U7'' @ '' '' @ ''shuffles'' @ ''...'') ''101'',
        thread_params ''C1'' (announcement (userMention ''U7'')
           \<lparr>name = ''Tower'', requirements = ''bricks''\<rparr> ''a fall'') ''101'']"
    by (subst d(3)) (simp_all add: item_string_def demo_cards_def thread_params_def)
  show ?thesis
    unfolding h k p
    by (simp add: thread_params_def userMention_def startsWith_def)
qed

subsection \<open>C4\<close>

text \<open>
  C4. A draw request that gets to the cooldown check and finds no marker writes the
  marker \<^verbatim>\<open>true\<close> under the player's cooldown key with a time-to-live of 30000
  milliseconds right after the check; every call of the store on the player's hand
  comes after it. Unless the store throws, the marker is in the store at the end of
  the call and expires 30000 milliseconds after the time of the call.
\<close>

theorem drawCard_cooldown_commit:
  assumes run: "drawCard env ts (Some un) w = (res, w')"
    and start: "transcript env ''drawing.start'' = Inr s"
    and post: "postMessage env (length (posts (trace w)))
           (thread_params (channelId w) (userMention un @ '' '' @ s @ ''...'') ts) = Inr r1"
    and get: "kv_get_error env (cooldown_key un) = None"
    and absent: "\<not> truthy (kv_lookup (kv w) (now env) (cooldown_key un))"
  shows "(\<exists>rest. store_ops (new_effects w w') =
              [KvGet (cooldown_key un), KvSet (cooldown_key un) (Marker True) (Some 30000)] @ rest
            \<and> (\<forall>op \<in> set rest. op = KvGet (hand_key un) \<or> (\<exists>v. op = KvSet (hand_key un) v None)))
     \<and> (kv_set_error env (cooldown_key un) = None
          \<longrightarrow> kv w' (cooldown_key un) = Some (Marker True, Some (now env + 30000)))"
proof -
  have w': "w' = snd (drawCard env ts (Some un) w)"
    using run by simp
  show ?thesis
    unfolding w'
    using drawCard_committed_ops[OF drawCard_store_ops_new start post get absent]
      drawCard_committed_kv[OF start post get absent]
    by blast
qed

theorem drawCard_cooldown_commit_witness:
  "store_ops (new_effects demo_world (snd (drawCard demo_env ''101'' (Some ''U7'') demo_world))) =
     [KvGet (cooldown_key ''U7''), KvSet (cooldown_key ''U7'') (Marker True) (Some 30000),
      KvGet (hand_key ''U7''), KvSet (hand_key ''U7'') (Hand [Card ''tower'']) None]
   \<and> kv (snd (drawCard demo_env ''101'' (Some ''U7'') demo_world)) (cooldown_key ''U7'')
       = Some (Marker True, Some 31000)"
proof -
  let ?w' = "snd (drawCard demo_env ''101'' (Some ''U7'') demo_world)"
  have h1: "transcript demo_env ''drawing.start'' = Inr ''shuffles''"
    by simp
  have h2: "postMessage demo_env (length (posts (trace demo_world)))
           (thread_params (channelId demo_world) (userMention ''U7'' @ '' '' @ ''shuffles'' @ ''...'') ''101'')
          = Inr \<lparr>res_channel = ''C1'', res_ts = ''200''\<rparr>"
    by (simp add: thread_params_def)
  have h3: "kv_get_error demo_env (cooldown_key ''U7'') = None"
    by simp
  have h4: "\<not> truthy (kv_lookup (kv demo_world) (now demo_env) (cooldown_key ''U7''))"
    by simp
  note c = drawCard_cooldown_commit[OF surjective_pairing h1 h2 h3 h4]
  have ops: "store_ops (trace ?w') = store_ops (trace demo_world) @
           [KvGet (cooldown_key ''U7''), KvSet (cooldown_key ''U7'') (Marker True) (Some 30000),
            KvGet (hand_key ''U7''),
            KvSet (hand_key ''U7'') (Hand ([] @ [randomCard demo_env []])) None]"
    by (rule drawCard_deal_run(4)[where s = "''shuffles''" and fl = "''a fall''"
          and c = "\<lparr>name = ''Tower'', requirements = ''bricks''\<rparr>"])
       (simp_all add: item_string_def demo_cards_def thread_params_def)
  have "store_ops (new_effects demo_world ?w') =
     [KvGet (cooldown_key ''U7''), KvSet (cooldown_key ''U7'') (Marker True) (Some 30000),
      KvGet (hand_key ''U7''), KvSet (hand_key ''U7'') (Hand [Card ''tower'']) None]"
    using ops drawCard_store_ops_new[of demo_env "''101''" "Some ''U7''" demo_world] by simp
  thus ?thesis
    using c by simp
qed

subsection \<open>C5\<close>




subsection \<open>C6\<close>

text \<open>
  C6, as the code has it. For a recognised draw request the actor is the label
  \<^verbatim>\<open>The Fool\<close> when the event has a truthy \<^verbatim>\<open>bot_id\<close> and the \<^verbatim>\<open>user\<close> of the event
  otherwise. Every call of the store that the request makes is on the actor's
  cooldown key or hand key, and the text of every post begins with the mention of
  the actor: \<^verbatim>\<open><@id>\<close> for an identity that begins with \<^verbatim>\<open>U\<close>, and the identity
  itself for any other, the narrator label among them.
\<close>

theorem draw_actor_identity:
  assumes "ev_channel ev = channelId w"
    and "ev_thread_ts ev = map_option rm_messageTs (rootMessage w)"
    and "ev_text ev = Some msg" and "toUpperCase env (trim msg) = units ''DRAW''"
    and run: "handleMessageEvent env ev w = (res, w')"
    and actor: "actor = (if truthy_string (ev_bot_id ev) then ''The Fool'' else u)"
    and user: "truthy_string (ev_bot_id ev) \<or> ev_user ev = Some u"
  shows "(\<forall>op \<in> set (store_ops (new_effects w w')).
            op = KvGet (cooldown_key actor) \<or> op = KvGet (hand_key actor)
          \<or> (\<exists>v t. op = KvSet (cooldown_key actor) v t)
          \<or> (\<exists>v t. op = KvSet (hand_key actor) v t))
     \<and> (\<forall>p \<in> set (posts (new_effects w w')). \<exists>rest. mp_text p =
            (if startsWith actor CHR ''U'' then ''<@'' @ actor @ ''>'' else actor) @ '' '' @ rest)
     \<and> (truthy_string (ev_bot_id ev) \<longrightarrow>
           (\<forall>p \<in> set (posts (new_effects w w')). \<exists>rest. mp_text p = ''The Fool '' @ rest))"
proof -
  let ?w1 = "w\<lparr>trace := trace w @
                 [ConsoleLog ''Received message event:'',
                  ConsoleLog ''DRAW command detected, calling drawCard with messageTs:'']\<rparr>"
  have w': "w' = snd (handleMessageEvent env ev w)"
    using run by simp
  have a: "(if truthy_string (ev_bot_id ev) then Some ''The Fool'' else ev_user ev) = Some actor"
    using actor user by auto
  note h = handleMessageEvent_draw[OF assms(1-4) a]
  have ops: "store_ops (trace (snd (drawCard env (ev_ts ev) (Some actor) ?w1)))
      = store_ops (trace ?w1) @ store_ops (new_effects w w')"
    using h(4) handleMessageEvent_new(2)[of env ev w] by (simp add: w')
  have ps: "posts (trace (snd (drawCard env (ev_ts ev) (Some actor) ?w1)))
      = posts (trace ?w1) @ posts (new_effects w w')"
    using h(3) handleMessageEvent_new(1)[of env ev w] by (simp add: w')
  have mention: "\<exists>rest. mp_text p =
            (if startsWith actor CHR ''U'' then ''<@'' @ actor @ ''>'' else actor) @ '' '' @ rest"
    if "p \<in> set (posts (new_effects w w'))" for p
    using drawCard_posts_mention[OF ps that] by (simp add: userMention_def)
  have "\<exists>rest. mp_text p = ''The Fool '' @ rest"
    if "p \<in> set (posts (new_effects w w'))" "truthy_string (ev_bot_id ev)" for p
    using mention[OF that(1)] actor that(2) by (simp add: startsWith_def)
  thus ?thesis
    using drawCard_ops_keys[OF ops] mention by blast
qed

theorem draw_actor_identity_witness:
  "map mp_text (posts (new_effects demo_world
       (snd (handleMessageEvent demo_env (demo_event\<lparr>ev_bot_id := Some ''B1''\<rparr>) demo_world))))
     = [''The Fool shuffles...'',
        announcement ''The Fool'' \<lparr>name = ''Tower'', requirements = ''bricks''\<rparr> ''a fall'']
   \<and> store_ops (new_effects demo_world
       (snd (handleMessageEvent demo_env (demo_event\<lparr>ev_bot_id := Some ''B1''\<rparr>) demo_world)))
     = [KvGet ''card_draw:The Fool'', KvSet ''card_draw:The Fool'' (Marker True) (Some 30000),
        KvGet ''user_hand:The Fool'', KvSet ''user_hand:The Fool'' (Hand [Card ''tower'']) None]
   \<and> list_all (\<lambda>p. take 9 (mp_text p) = ''The Fool '') (posts (new_effects demo_world
       (snd (handleMessageEvent demo_env (demo_event\<lparr>ev_bot_id := Some ''B1''\<rparr>) demo_world))))"
proof -
  let ?ev = "demo_event\<lparr>ev_bot_id := Some ''B1''\<rparr>"
  let ?w1 = "demo_world\<lparr>trace := trace demo_world @
                 [ConsoleLog ''Received message event:'',
                  ConsoleLog ''DRAW command detected, calling drawCard with messageTs:'']\<rparr>"
  let ?w' = "snd (handleMessageEvent demo_env ?ev demo_world)"
  have ev: "ev_channel ?ev = channelId demo_world"
    "ev_thread_ts ?ev = map_option rm_messageTs (rootMessage demo_world)"
    "ev_text ?ev = Some (units '' draw '')"
    "toUpperCase demo_env (trim (units '' draw '')) = units ''DRAW''"
    by (simp_all add: demo_event_def)
  have bot: "truthy_string (ev_bot_id ?ev)"
    by (simp add: truthy_string_def)
  have a: "(if truthy_string (ev_bot_id ?ev) then Some ''The Fool'' else ev_user ?ev) = Some ''The Fool''"
    using bot by simp
  have ts: "ev_ts ?ev = ''101''"
    by (simp add: demo_event_def)
  note h = handleMessageEvent_draw[OF ev a, unfolded ts]
  note d = drawCard_deal_run[where env = demo_env and w = ?w1 and un = "''The Fool''"
      and ts = "''101''" and s = "''shuffles''" and fl = "''a fall''" and h = "[]"
      and c = "\<lparr>name = ''Tower'', requirements = ''bricks''\<rparr>"
      and ?r1.0 = "\<lparr>res_channel = ''C1'', res_ts = ''200''\<rparr>"]
  have p: "posts (trace (snd (drawCard demo_env ''101'' (Some ''The Fool'') ?w1))) =
       [thread_params ''C1'' (userMention ''The Fool'' @ '' '' @ ''shuffles'' @ ''...'') ''101'',
        thread_params ''C1'' (announcement (userMention ''The Fool'')
           \<lparr>name = ''Tower'', requirements = ''bricks''\<rparr> ''a fall'') ''101'']"
    by (subst d(3)) (simp_all add: item_string_def demo_cards_def thread_params_def)
  have o: "store_ops (trace (snd (drawCard demo_env ''101'' (Some ''The Fool'') ?w1))) =
       [KvGet (cooldown_key ''The Fool''), KvSet (cooldown_key ''The Fool'') (Marker True) (Some 30000),
        KvGet (hand_key ''The Fool''), KvSet (hand_key ''The Fool'') (Hand [Card ''tower'']) None]"
    by (subst d(4)) (simp_all add: item_string_def demo_cards_def thread_params_def)
  have posts_new: "posts (new_effects demo_world ?w') =
       [thread_params ''C1'' (userMention ''The Fool'' @ '' '' @ ''shuffles'' @ ''...'') ''101'',
        thread_params ''C1'' (announcement (userMention ''The Fool'')
           \<lparr>name = ''Tower'', requirements = ''bricks''\<rparr> ''a fall'') ''101'']"
    using handleMessageEvent_new(1)[of demo_env ?ev demo_world] h(3) p by simp
  have ops_new: "store_ops (new_effects demo_world ?w') =
       [KvGet (cooldown_key ''The Fool''), KvSet (cooldown_key ''The Fool'') (Marker True) (Some 30000),
        KvGet (hand_key ''The Fool''), KvSet (hand_key ''The Fool'') (Hand [Card ''tower'']) None]"
    using handleMessageEvent_new(2)[of demo_env ?ev demo_world] h(4) o by simp
  have "\<forall>p \<in> set (posts (new_effects demo_world ?w')). \<exists>rest. mp_text p = ''The Fool '' @ rest"
    using draw_actor_identity[OF ev surjective_pairing, where actor = "''The Fool''" and u = "''U7''"] bot
    by simp
  hence "list_all (\<lambda>p. take 9 (mp_text p) = ''The Fool '') (posts (new_effects demo_world ?w'))"
    by (auto simp: list_all_iff)
  thus ?thesis
    unfolding posts_new ops_new
    by (simp add: thread_params_def userMention_def startsWith_def cooldown_key_def hand_key_def)
qed

text \<open>
  The claim C6 says that every player identity is rendered as a mention marker. A
  player whose identity begins with another letter, here \<^verbatim>\<open>W7\<close>, is addressed by the
  bare identity.
\<close>

theorem draw_actor_identity_counterexample:
  "map mp_text (posts (new_effects demo_world
       (snd (handleMessageEvent demo_env (demo_event\<lparr>ev_user := Some ''W7''\<rparr>) demo_world))))
     = [''W7 shuffles...'',
        announcement ''W7'' \<lparr>name = ''Tower'', requirements = ''bricks''\<rparr> ''a fall'']
   \<and> ''W7 shuffles...'' \<noteq> ''<@W7> shuffles...''"
proof -
  let ?ev = "demo_event\<lparr>ev_user := Some ''W7''\<rparr>"
  let ?w1 = "demo_world\<lparr>trace := trace demo_world @
                 [ConsoleLog ''Received message event:'',
                  ConsoleLog ''DRAW command detected, calling drawCard with messageTs:'']\<rparr>"
  let ?w' = "snd (handleMessageEvent demo_env ?ev demo_world)"
  have ev: "ev_channel ?ev = channelId demo_world"
    "ev_thread_ts ?ev = map_option rm_messageTs (rootMessage demo_world)"
    "ev_text ?ev = Some (units '' draw '')"
    "toUpperCase demo_env (trim (units '' draw '')) = units ''DRAW''"
    "(if truthy_string (ev_bot_id ?ev) then Some ''The Fool'' else ev_user ?ev) = Some ''W7''"
    by (simp_all add: demo_event_def truthy_string_def)
  have ts: "ev_ts ?ev = ''101''"
    by (simp add: demo_event_def)
  note h = handleMessageEvent_draw[OF ev, unfolded ts]
  note d = drawCard_deal_run[where env = demo_env and w = ?w1 and un = "''W7''"
      and ts = "''101''" and s = "''shuffles''" and fl = "''a fall''" and h = "[]"
      and c = "\<lparr>name = ''Tower'', requirements = ''bricks''\<rparr>"
      and ?r1.0 = "\<lparr>res_channel = ''C1'', res_ts = ''200''\<rparr>"]
  have p: "posts (trace (snd (drawCard demo_env ''101'' (Some ''W7'') ?w1))) =
       [thread_params ''C1'' (userMention ''W7'' @ '' '' @ ''shuffles'' @ ''...'') ''101'',
        thread_params ''C1'' (announcement (userMention ''W7'')
           \<lparr>name = ''Tower'', requirements = ''bricks''\<rparr> ''a fall'') ''101'']"
    by (subst d(3)) (simp_all add: item_string_def demo_cards_def thread_params_def)
  have posts_new: "posts (new_effects demo_world ?w') =
       [thread_params ''C1'' (userMention ''W7'' @ '' '' @ ''shuffles'' @ ''...'') ''101'',
        thread_params ''C1'' (announcement (userMention ''W7'')
           \<lparr>name = ''Tower'', requirements = ''bricks''\<rparr> ''a fall'') ''101'']"
    using handleMessageEvent_new(1)[of demo_env ?ev demo_world] h(3) p by simp
  show ?thesis
    unfolding posts_new
    by (simp add: thread_params_def userMention_def startsWith_def)
qed

subsection \<open>C7\<close>

text \<open>
  C7. An error raised in the \<^verbatim>\<open>try\<close> block of \<^verbatim>\<open>drawCard\<close> (the cooldown check, the
  sampling, the recording, the announcement) is logged by \<^verbatim>\<open>drawCard\<close> and raised
  again, unchanged. When \<^verbatim>\<open>handleMessageEvent\<close> has recognised a draw command and
  \<^verbatim>\<open>drawCard\<close> raises, the handler logs the error and returns normally; and no call of
  \<^verbatim>\<open>handleMessageEvent\<close> raises at all.
\<close>

theorem draw_errors_stop_at_handler:
  "(drawCard_try env ts un (snd (react env ts ''beachball'' True w)) = (Inl e, w1) \<longrightarrow>
      drawCard env ts (Some un) w =
        (Inl e, w1\<lparr>trace := trace w1 @ [ConsoleError ''Error in drawCard:'' (Some e)]\<rparr>))
   \<and> (ev_channel ev = channelId w
        \<and> ev_thread_ts ev = map_option rm_messageTs (rootMessage w)
        \<and> ev_text ev = Some msg \<and> toUpperCase env (trim msg) = units ''DRAW''
        \<and> drawCard env (ev_ts ev)
             (if truthy_string (ev_bot_id ev) then Some ''The Fool'' else ev_user ev)
             (w\<lparr>trace := trace w @
                 [ConsoleLog ''Received message event:'',
                  ConsoleLog ''DRAW command detected, calling drawCard with messageTs:'']\<rparr>)
            = (Inl e', w2) \<longrightarrow>
      handleMessageEvent env ev w =
        (Inr (), w2\<lparr>trace := trace w2 @
                   [ConsoleError ''Error handling message event:'' (Some e')]\<rparr>))
   \<and> fst (handleMessageEvent env ev w) = Inr ()"
proof -
  have "drawCard env ts (Some un) w =
        (Inl e, w1\<lparr>trace := trace w1 @ [ConsoleError ''Error in drawCard:'' (Some e)]\<rparr>)"
    if "drawCard_try env ts un (snd (react env ts ''beachball'' True w)) = (Inl e, w1)"
    using that by (simp add: drawCard_def andThen_alt tryCatch_alt raise_def)
  moreover have "handleMessageEvent env ev w =
        (Inr (), w2\<lparr>trace := trace w2 @
                   [ConsoleError ''Error handling message event:'' (Some e')]\<rparr>)"
    if "ev_channel ev = channelId w" "ev_thread_ts ev = map_option rm_messageTs (rootMessage w)"
      "ev_text ev = Some msg" "toUpperCase env (trim msg) = units ''DRAW''"
      "drawCard env (ev_ts ev)
             (if truthy_string (ev_bot_id ev) then Some ''The Fool'' else ev_user ev)
             (w\<lparr>trace := trace w @
                 [ConsoleLog ''Received message event:'',
                  ConsoleLog ''DRAW command detected, calling drawCard with messageTs:'']\<rparr>)
            = (Inl e', w2)"
    using handleMessageEvent_run[OF that(1-3), of env] that(4,5)
    by (simp add: tryCatch_def emit_def)
  moreover have "fst (handleMessageEvent env ev w) = Inr ()"
    by (simp add: handleMessageEvent_def)
  ultimately show ?thesis by blast
qed

theorem draw_errors_stop_at_handler_witness:
  "fst (drawCard (demo_env\<lparr>postMessage := (\<lambda>n p. if n = 1 then Inl (Thrown ''rate limited'')
            else Inr \<lparr>res_channel = mp_channel p, res_ts = ''200''\<rparr>)\<rparr>)
         ''101'' (Some ''U7'') demo_world) = Inl (Thrown ''rate limited'')
   \<and> last (trace (snd (drawCard (demo_env\<lparr>postMessage := (\<lambda>n p. if n = 1 then Inl (Thrown ''rate limited'')
            else Inr \<lparr>res_channel = mp_channel p, res_ts = ''200''\<rparr>)\<rparr>)
         ''101'' (Some ''U7'') demo_world)))
       = ConsoleError ''Error in drawCard:'' (Some (Thrown ''rate limited''))
   \<and> fst (handleMessageEvent (demo_env\<lparr>postMessage := (\<lambda>n p. if n = 1 then Inl (Thrown ''rate limited'')
            else Inr \<lparr>res_channel = mp_channel p, res_ts = ''200''\<rparr>)\<rparr>) demo_event demo_world) = Inr ()
   \<and> last (trace (snd (handleMessageEvent (demo_env\<lparr>postMessage := (\<lambda>n p. if n = 1 then Inl (Thrown ''rate limited'')
            else Inr \<lparr>res_channel = mp_channel p, res_ts = ''200''\<rparr>)\<rparr>) demo_event demo_world)))
       = ConsoleError ''Error handling message event:'' (Some (Thrown ''rate limited''))"
proof -
  let ?env = "demo_env\<lparr>postMessage := (\<lambda>n p. if n = 1 then Inl (Thrown ''rate limited'')
            else Inr \<lparr>res_channel = mp_channel p, res_ts = ''200''\<rparr>)\<rparr>"
  let ?w1 = "demo_world\<lparr>trace := trace demo_world @
                 [ConsoleLog ''Received message event:'',
                  ConsoleLog ''DRAW command detected, calling drawCard with messageTs:'']\<rparr>"
  have raised: "fst (drawCard ?env ''101'' (Some ''U7'') w) = Inl (Thrown ''rate limited'')"
    if "kv w = Map.empty" "posts (trace w) = []" "channelId w = ''C1''" for w
    using that
    by (subst drawCard_deal_run(1)[where s = "''shuffles''" and fl = "''a fall''" and h = "[]"
          and c = "\<lparr>name = ''Tower'', requirements = ''bricks''\<rparr>"])
       (simp_all add: item_string_def demo_cards_def thread_params_def)
  have "fst (drawCard_try ?env ''101'' ''U7'' (snd (react ?env ''101'' ''beachball'' True demo_world)))
      = Inl (Thrown ''rate limited'')"
    using raised[of demo_world] by (simp add: drawCard_fst_try)
  hence run: "drawCard_try ?env ''101'' ''U7'' (snd (react ?env ''101'' ''beachball'' True demo_world))
      = (Inl (Thrown ''rate limited''),
         snd (drawCard_try ?env ''101'' ''U7'' (snd (react ?env ''101'' ''beachball'' True demo_world))))"
    by (metis surjective_pairing)
  have run': "drawCard ?env ''101'' (Some ''U7'') ?w1
      = (Inl (Thrown ''rate limited''), snd (drawCard ?env ''101'' (Some ''U7'') ?w1))"
    using raised[of ?w1] by (simp add: fst_eq_pair)
  have ev: "ev_channel demo_event = channelId demo_world"
    "ev_thread_ts demo_event = map_option rm_messageTs (rootMessage demo_world)"
    "ev_text demo_event = Some (units '' draw '')"
    "toUpperCase ?env (trim (units '' draw '')) = units ''DRAW''"
    by (simp_all add: demo_event_def)
  have actor: "ev_ts demo_event = ''101''"
    "(if truthy_string (ev_bot_id demo_event) then Some ''The Fool'' else ev_user demo_event) = Some ''U7''"
    by (simp_all add: demo_event_def truthy_string_def)
  note T = draw_errors_stop_at_handler[where env = "?env" and ts = "''101''" and un = "''U7''"
        and w = demo_world and e = "Thrown ''rate limited''"
        and ?w1.0 = "snd (drawCard_try ?env ''101'' ''U7'' (snd (react ?env ''101'' ''beachball'' True demo_world)))"
        and ev = demo_event and msg = "units '' draw ''" and e' = "Thrown ''rate limited''"
        and ?w2.0 = "snd (drawCard ?env ''101'' (Some ''U7'') ?w1)", unfolded actor]
  have c1: "drawCard ?env ''101'' (Some ''U7'') demo_world =
        (Inl (Thrown ''rate limited''),
         (snd (drawCard_try ?env ''101'' ''U7'' (snd (react ?env ''101'' ''beachball'' True demo_world))))
          \<lparr>trace := trace (snd (drawCard_try ?env ''101'' ''U7''
                (snd (react ?env ''101'' ''beachball'' True demo_world)))) @
             [ConsoleError ''Error in drawCard:'' (Some (Thrown ''rate limited''))]\<rparr>)"
    using T run by blast
  have c2: "handleMessageEvent ?env demo_event demo_world =
        (Inr (), (snd (drawCard ?env ''101'' (Some ''U7'') ?w1))
           \<lparr>trace := trace (snd (drawCard ?env ''101'' (Some ''U7'') ?w1)) @
                   [ConsoleError ''Error handling message event:'' (Some (Thrown ''rate limited''))]\<rparr>)"
    using T run' ev by blast
  show ?thesis
    unfolding c1 c2 by simp
qed

subsection \<open>C8\<close>

text \<open>
  C8. A call of \<^verbatim>\<open>sendMessage\<close> with a thread timestamp leaves the session in memory as it
  is and makes no write request for the file. A call without one (\<^verbatim>\<open>null\<close>, or the empty
  string, which is falsy as well) that Slack accepts makes the channel and timestamp
  of the posted message the session in memory and then, after the post, hands that
  session to \<^verbatim>\<open>Bun.write\<close>; when Slack refuses the post the session stays and no write
  is requested. The write is not waited for: persisting is the request.
\<close>

theorem sendMessage_session:
  assumes run: "sendMessage env message threadTs username w = (res, w')"
  shows "(truthy_string threadTs \<longrightarrow>
            rootMessage w' = rootMessage w \<and> (\<forall>m. BunWrite m \<notin> set (new_effects w w')))
    \<and> (\<not> truthy_string threadTs \<longrightarrow>
         (\<forall>result. res = Inr result \<longrightarrow>
             rootMessage w' = Some \<lparr>rm_channelId = res_channel result, rm_messageTs = res_ts result\<rparr>
           \<and> new_effects w w' =
                [ConsoleLog ''Sending message with params:'',
                 PostMessage \<lparr>mp_channel = channelId w, mp_text = message, mp_thread_ts = None,
                    mp_username = (if truthy_string username then username else None)\<rparr>,
                 BunWrite (Some \<lparr>rm_channelId = res_channel result, rm_messageTs = res_ts result\<rparr>)]
                @ (case write_error env of
                     None \<Rightarrow> []
                   | Some e \<Rightarrow> [ConsoleError ''Error saving root message:'' (Some e)]))
       \<and> (\<forall>e. res = Inl e \<longrightarrow>
             rootMessage w' = rootMessage w \<and> (\<forall>m. BunWrite m \<notin> set (new_effects w w'))))"
  using run
  by (auto simp: sendMessage_def saveRootMessage_def prog_defs Let_def new_effects_def
      truthy_string_def split: sum.splits option.splits prod.splits if_splits)

theorem sendMessage_session_witness:
  "rootMessage (snd (sendMessage demo_env ''hello'' None None demo_world))
     = Some \<lparr>rm_channelId = ''C1'', rm_messageTs = ''200''\<rparr>
   \<and> new_effects demo_world (snd (sendMessage demo_env ''hello'' None None demo_world))
     = [ConsoleLog ''Sending message with params:'',
        PostMessage \<lparr>mp_channel = ''C1'', mp_text = ''hello'', mp_thread_ts = None,
           mp_username = None\<rparr>,
        BunWrite (Some \<lparr>rm_channelId = ''C1'', rm_messageTs = ''200''\<rparr>)]
   \<and> rootMessage (snd (sendMessage demo_env ''hello'' (Some ''100'') None demo_world))
     = Some \<lparr>rm_channelId = ''C1'', rm_messageTs = ''100''\<rparr>
   \<and> BunWrite (Some \<lparr>rm_channelId = ''C1'', rm_messageTs = ''200''\<rparr>)
     \<notin> set (new_effects demo_world
          (snd (sendMessage demo_env ''hello'' (Some ''100'') None demo_world)))"
proof -
  have fst1: "fst (sendMessage demo_env ''hello'' None None demo_world)
      = Inr \<lparr>res_channel = ''C1'', res_ts = ''200''\<rparr>"
    by (simp add: sendMessage_def saveRootMessage_def prog_defs Let_def truthy_string_def)
  note run1 = fst_eq_pair[OF fst1]
  have run2: "sendMessage demo_env ''hello'' (Some ''100'') None demo_world
     = (fst (sendMessage demo_env ''hello'' (Some ''100'') None demo_world),
        snd (sendMessage demo_env ''hello'' (Some ''100'') None demo_world))"
    by (rule surjective_pairing)
  show ?thesis
    using sendMessage_session[OF run1] sendMessage_session[OF run2]
    by (simp add: truthy_string_def)
qed

subsection \<open>C9\<close>

text \<open>
  C9, as the code has it. When the hand read holds every key of the catalogue, the
  selected identifier is \<^verbatim>\<open>undefined\<close>; there is no guard and no response of its own
  for this case. The hand with \<^verbatim>\<open>undefined\<close> appended is written to the store, and a
  hand that holds \<^verbatim>\<open>undefined\<close> is exhausted as before, so each further draw on it
  appends one more. No announcement is posted: unless the catalogue has a card under
  the key \<^verbatim>\<open>undefined\<close>, the card looked up is \<^verbatim>\<open>undefined\<close>, and \<^verbatim>\<open>drawCard\<close> raises
  the error of the flavour lookup, if that throws, and else the \<^verbatim>\<open>TypeError\<close> of reading
  the name of the card. The only post of the call is the opening phrase.
\<close>

theorem drawCard_exhausted_deck:
  assumes run: "drawCard env ts (Some un) w = (res, w')"
    and "transcript env ''drawing.start'' = Inr s"
    and "postMessage env (length (posts (trace w)))
           (thread_params (channelId w) (userMention un @ '' '' @ s @ ''...'') ts) = Inr r1"
    and "kv_get_error env (cooldown_key un) = None"
    and "\<not> truthy (kv_lookup (kv w) (now env) (cooldown_key un))"
    and "kv_set_error env (cooldown_key un) = None"
    and "kv_get_error env (hand_key un) = None"
    and "hand_of (kv_lookup (kv w) (now env) (hand_key un)) = Inr h"
    and exhausted: "availableCards (cards env) h = []"
    and "kv_set_error env (hand_key un) = None"
    and "map_of (cards env) ''undefined'' = None"
  shows "randomCard env h = Undefined
     \<and> kv w' = (kv w)(cooldown_key un \<mapsto> (Marker True, Some (now env + 30000)),
                       hand_key un \<mapsto> (Hand (h @ [Undefined]), None))
     \<and> availableCards (cards env) (h @ [Undefined]) = []
     \<and> res = Inl (case transcript env ''cards.undefined.flavor'' of
                     Inl e \<Rightarrow> e | Inr fl \<Rightarrow> TypeError)
     \<and> posts (new_effects w w') =
           [thread_params (channelId w) (userMention un @ '' '' @ s @ ''...'') ts]"
proof -
  have w': "w' = snd (drawCard env ts (Some un) w)"
    and res: "res = fst (drawCard env ts (Some un) w)"
    using run by simp_all
  note r = drawCard_exhausted_run[OF assms(2-11)]
  have "posts (new_effects w w') =
           [thread_params (channelId w) (userMention un @ '' '' @ s @ ''...'') ts]"
    using r(3) drawCard_posts_new[of env ts "Some un" w] by (simp add: w')
  moreover have "availableCards (cards env) (h @ [Undefined]) = []"
    using exhausted by (simp add: availableCards_def)
  ultimately show ?thesis
    using r(1,2) randomCard_exhausted[OF exhausted] by (simp add: w' res)
qed

theorem drawCard_exhausted_deck_witness:
  "kv (snd (drawCard (demo_env\<lparr>now := 40000\<rparr>) ''102'' (Some ''U7'')
         (snd (drawCard demo_env ''101'' (Some ''U7'')
            (demo_world\<lparr>kv := [hand_key ''U7'' \<mapsto> (Hand [Card ''fool'', Card ''tower''], None)]\<rparr>)))))
     (hand_key ''U7'')
     = Some (Hand [Card ''fool'', Card ''tower'', Undefined, Undefined], None)
   \<and> fst (drawCard (demo_env\<lparr>now := 40000\<rparr>) ''102'' (Some ''U7'')
         (snd (drawCard demo_env ''101'' (Some ''U7'')
            (demo_world\<lparr>kv := [hand_key ''U7'' \<mapsto> (Hand [Card ''fool'', Card ''tower''], None)]\<rparr>))))
     = Inl TypeError"
proof -
  let ?w = "demo_world\<lparr>kv := [hand_key ''U7'' \<mapsto> (Hand [Card ''fool'', Card ''tower''], None)]\<rparr>"
  let ?w1 = "snd (drawCard demo_env ''101'' (Some ''U7'') ?w)"
  let ?env2 = "demo_env\<lparr>now := 40000\<rparr>"
  have first: "kv ?w1 = (kv ?w)(cooldown_key ''U7'' \<mapsto> (Marker True, Some (now demo_env + 30000)),
                       hand_key ''U7'' \<mapsto> (Hand ([Card ''fool'', Card ''tower''] @ [Undefined]), None))
     \<and> posts (new_effects ?w ?w1) =
           [thread_params (channelId ?w) (userMention ''U7'' @ '' '' @ ''shuffles'' @ ''...'') ''101'']"
    using drawCard_exhausted_deck[OF surjective_pairing, where env = demo_env and w = ?w
        and un = "''U7''" and ts = "''101''" and s = "''shuffles''"
        and h = "[Card ''fool'', Card ''tower'']"
        and ?r1.0 = "\<lparr>res_channel = ''C1'', res_ts = ''200''\<rparr>"]
    by (simp add: availableCards_def demo_cards_def thread_params_def)
  have n: "length (posts (trace ?w1)) = 1"
    using first drawCard_posts_new[of demo_env "''101''" "Some ''U7''" ?w] by simp
  have second: "kv (snd (drawCard ?env2 ''102'' (Some ''U7'') ?w1)) =
       (kv ?w1)(cooldown_key ''U7'' \<mapsto> (Marker True, Some (now ?env2 + 30000)),
                hand_key ''U7'' \<mapsto> (Hand ([Card ''fool'', Card ''tower'', Undefined] @ [Undefined]), None))
     \<and> fst (drawCard ?env2 ''102'' (Some ''U7'') ?w1) =
          Inl (case transcript ?env2 ''cards.undefined.flavor'' of Inl e \<Rightarrow> e | Inr fl \<Rightarrow> TypeError)"
    using drawCard_exhausted_deck[OF surjective_pairing, where env = "?env2" and w = ?w1
        and un = "''U7''" and ts = "''102''" and s = "''shuffles''"
        and h = "[Card ''fool'', Card ''tower'', Undefined]"
        and ?r1.0 = "\<lparr>res_channel = ''C1'', res_ts = ''200''\<rparr>"] first n
    by (simp add: availableCards_def demo_cards_def thread_params_def)
  show ?thesis
    using second by simp
qed

theorem drawCard_exhausted_deck_counterexample:
  "fst (drawCard demo_env ''101'' (Some ''U7'')
          (demo_world\<lparr>kv := [hand_key ''U7'' \<mapsto> (Hand [Card ''fool'', Card ''tower''], None)]\<rparr>))
     = Inl TypeError
   \<and> map mp_text (posts (trace (snd (drawCard demo_env ''101'' (Some ''U7'')
          (demo_world\<lparr>kv := [hand_key ''U7'' \<mapsto> (Hand [Card ''fool'', Card ''tower''], None)]\<rparr>)))))
     = [''<@U7> shuffles...'']
   \<and> kv (snd (drawCard demo_env ''101'' (Some ''U7'')
          (demo_world\<lparr>kv := [hand_key ''U7'' \<mapsto> (Hand [Card ''fool'', Card ''tower''], None)]\<rparr>)))
        (hand_key ''U7'')
     = Some (Hand [Card ''fool'', Card ''tower'', Undefined], None)"
proof -
  let ?w = "demo_world\<lparr>kv := [hand_key ''U7'' \<mapsto> (Hand [Card ''fool'', Card ''tower''], None)]\<rparr>"
  note r = drawCard_exhausted_run[where env = demo_env and w = ?w and un = "''U7''"
      and ts = "''101''" and s = "''shuffles''" and h = "[Card ''fool'', Card ''tower'']"
      and ?r1.0 = "\<lparr>res_channel = ''C1'', res_ts = ''200''\<rparr>"]
  have a: "fst (drawCard demo_env ''101'' (Some ''U7'') ?w) = Inl TypeError"
    by (subst r(1)) (simp_all add: availableCards_def demo_cards_def thread_params_def)
  have b: "kv (snd (drawCard demo_env ''101'' (Some ''U7'') ?w)) (hand_key ''U7'')
       = Some (Hand [Card ''fool'', Card ''tower'', Undefined], None)"
    by (subst r(2)) (simp_all add: availableCards_def demo_cards_def thread_params_def)
  have c: "posts (trace (snd (drawCard demo_env ''101'' (Some ''U7'') ?w)))
       = [thread_params ''C1'' (userMention ''U7'' @ '' '' @ ''shuffles'' @ ''...'') ''101'']"
    by (subst r(3)) (simp_all add: availableCards_def demo_cards_def thread_params_def)
  show ?thesis
    unfolding a b c by (simp add: thread_params_def userMention_def startsWith_def)
qed

subsection \<open>C10\<close>



end
